theory Spec2Isabelle
  imports Main
begin

section \<open>Values, errors and time\<close>

text \<open>
  The program is a Telegram wallet bot (\<^verbatim>\<open>walletbot.py\<close>). Its handlers talk to three
  collaborators: the MongoDB collections, the Ethereum node behind \<^verbatim>\<open>w3\<close> and the
  Telegram transport. Every call to a collaborator that can raise is a value of a sum
  type here (\<open>Inl\<close> the exception), and what a collaborator answers is an explicit
  observation handed to the handler.

  Strings are lists of characters with code points below 128 (ASCII); Python's unbounded
  integers are \<open>int\<close>. A naive \<^verbatim>\<open>datetime\<close> is the number of microseconds since
  1970-01-01T00:00:00 in the proleptic Gregorian calendar.
\<close>

datatype error =
    ValueError
  | OverflowError
  | TypeError
  | AttributeError
  | KeyError
  | CroniterBadCronError
  | NetworkError string
  | StoreError string
  | TelegramError string

type_synonym datetime = int

text \<open>The values a schedule field can hold: a cron expression, a number of days, a
  datetime, or the pair \<^verbatim>\<open>(next_date, days)\<close>.\<close>

datatype pyval =
    VStr string
  | VInt int
  | VDatetime datetime
  | VTuple datetime int

definition us_per_day :: int where
  "us_per_day = 86400000000"

definition noon_us :: int where
  "noon_us = 43200000000"

text \<open>\<^verbatim>\<open>datetime.min\<close> is 0001-01-01T00:00:00 and \<^verbatim>\<open>datetime.max\<close> is
  9999-12-31T23:59:59.999999.\<close>

definition min_datetime :: datetime where
  "min_datetime = - 719162 * 86400000000"

definition max_datetime :: datetime where
  "max_datetime = 2932897 * 86400000000 - 1"

text \<open>\<^verbatim>\<open>now + timedelta(days=n)\<close>: the timedelta constructor refuses more than
  999999999 days, and the sum must stay a datetime.\<close>

definition add_days :: "datetime \<Rightarrow> int \<Rightarrow> error + datetime" where
  "add_days now n =
     (if n < - 999999999 \<or> 999999999 < n then Inl OverflowError
      else let r = now + n * us_per_day
           in if r < min_datetime \<or> max_datetime < r then Inl OverflowError else Inr r)"

subsection \<open>The calendar\<close>

definition is_leap :: "int \<Rightarrow> bool" where
  "is_leap y = (y mod 4 = 0 \<and> (y mod 100 \<noteq> 0 \<or> y mod 400 = 0))"

definition days_in_month :: "int \<Rightarrow> int \<Rightarrow> int" where
  "days_in_month y m =
     (if m = 2 then (if is_leap y then 29 else 28)
      else if m = 4 \<or> m = 6 \<or> m = 9 \<or> m = 11 then 30 else 31)"

text \<open>Days from 1970-01-01 to the civil date \<open>y-m-d\<close>.\<close>

definition days_from_civil :: "int \<Rightarrow> int \<Rightarrow> int \<Rightarrow> int" where
  "days_from_civil y m d =
     (let y' = (if m \<le> 2 then y - 1 else y);
          era = y' div 400;
          yoe = y' - era * 400;
          mp = (m + 9) mod 12;
          doy = (153 * mp + 2) div 5 + d - 1;
          doe = yoe * 365 + yoe div 4 - yoe div 100 + doy
      in era * 146097 + doe - 719468)"

text \<open>The year of the day \<open>z\<close> days after 1970-01-01 (\<^verbatim>\<open>datetime.now().year\<close>).\<close>

definition year_of_days :: "int \<Rightarrow> int" where
  "year_of_days z =
     (let z' = z + 719468;
          era = z' div 146097;
          doe = z' - era * 146097;
          yoe = (doe - doe div 1460 + doe div 36524 - doe div 146096) div 365;
          y = yoe + era * 400;
          doy = doe - (365 * yoe + yoe div 4 - yoe div 100);
          mp = (5 * doy + 2) div 153;
          m = (if mp < 10 then mp + 3 else mp - 9)
      in if m \<le> 2 then y + 1 else y)"

definition year_of :: "datetime \<Rightarrow> int" where
  "year_of t = year_of_days (t div us_per_day)"

text \<open>\<^verbatim>\<open>datetime(year, month, day, 12, 0)\<close>: ValueError unless the date exists.\<close>

definition mk_noon :: "int \<Rightarrow> int \<Rightarrow> int \<Rightarrow> error + datetime" where
  "mk_noon y m d =
     (if y < 1 \<or> 9999 < y \<or> m < 1 \<or> 12 < m \<or> d < 1 \<or> days_in_month y m < d
      then Inl ValueError
      else Inr (days_from_civil y m d * us_per_day + noon_us))"

subsection \<open>croniter\<close>

text \<open>
  \<^verbatim>\<open>croniter(expr, now).get_next(datetime)\<close> is the library's: the first instant
  strictly after \<open>now\<close> that the expression matches. The program only ever builds
  expressions of the form \<^verbatim>\<open>0 12 * * d\<close> (minute 0, hour 12, weekday \<open>d\<close> with 0 for
  Sunday), and these are the ones the model reads; any other text is a bad expression.
  Day 0 (1970-01-01) was a Thursday, weekday 4.
\<close>

definition cron_weekday_of :: "string \<Rightarrow> int option" where
  "cron_weekday_of c =
     (if c = ''0 12 * * 0'' then Some 0
      else if c = ''0 12 * * 1'' then Some 1
      else if c = ''0 12 * * 2'' then Some 2
      else if c = ''0 12 * * 3'' then Some 3
      else if c = ''0 12 * * 4'' then Some 4
      else if c = ''0 12 * * 5'' then Some 5
      else if c = ''0 12 * * 6'' then Some 6
      else None)"

definition weekday_of_day :: "int \<Rightarrow> int" where
  "weekday_of_day d = (d + 4) mod 7"

definition next_weekday_noon :: "int \<Rightarrow> datetime \<Rightarrow> datetime" where
  "next_weekday_noon wd now =
     (let day = now div us_per_day;
          k = (wd - weekday_of_day day) mod 7;
          t0 = (day + k) * us_per_day + noon_us
      in if now < t0 then t0 else t0 + 7 * us_per_day)"

definition croniter_get_next :: "pyval \<Rightarrow> datetime \<Rightarrow> error + datetime" where
  "croniter_get_next expr now =
     (case expr of
        VStr c \<Rightarrow>
          (case cron_weekday_of c of
             None \<Rightarrow> Inl CroniterBadCronError
           | Some wd \<Rightarrow>
               (let t = next_weekday_noon wd now
                in if max_datetime < t then Inl OverflowError else Inr t))
      | _ \<Rightarrow> Inl TypeError)"

section \<open>The schedule parser\<close>

subsection \<open>Strings\<close>

definition lower_char :: "char \<Rightarrow> char" where
  "lower_char c =
     (case map_of (zip ''ABCDEFGHIJKLMNOPQRSTUVWXYZ'' ''abcdefghijklmnopqrstuvwxyz'') c of
        None \<Rightarrow> c
      | Some l \<Rightarrow> l)"

definition lower :: "string \<Rightarrow> string" where
  "lower s = map lower_char s"

text \<open>The ASCII characters \<^verbatim>\<open>str.isspace\<close> and the pattern \<^verbatim>\<open>\s\<close> accept.\<close>

definition is_space :: "char \<Rightarrow> bool" where
  "is_space c =
     (let n = (of_char c :: nat) in (9 \<le> n \<and> n \<le> 13) \<or> (28 \<le> n \<and> n \<le> 32))"

definition is_digit :: "char \<Rightarrow> bool" where
  "is_digit c = (let n = (of_char c :: nat) in 48 \<le> n \<and> n \<le> 57)"

definition strip :: "string \<Rightarrow> string" where
  "strip s = rev (dropWhile is_space (rev (dropWhile is_space s)))"

definition startswith :: "string \<Rightarrow> string \<Rightarrow> bool" where
  "startswith s p = (take (length p) s = p)"

text \<open>\<^verbatim>\<open>s.lstrip('@')\<close> removes every leading \<^verbatim>\<open>@\<close>.\<close>

definition lstrip_at :: "string \<Rightarrow> string" where
  "lstrip_at s = dropWhile (\<lambda>c. c = CHR ''@'') s"

text \<open>\<^verbatim>\<open>re.search\<close>: the match at the leftmost position where the pattern matches.\<close>

fun re_search :: "(string \<Rightarrow> 'a option) \<Rightarrow> string \<Rightarrow> 'a option" where
  "re_search m [] = m []"
| "re_search m (c # cs) =
     (case m (c # cs) of Some r \<Rightarrow> Some r | None \<Rightarrow> re_search m cs)"

text \<open>\<^verbatim>\<open>sub in s\<close>.\<close>

definition contains :: "string \<Rightarrow> string \<Rightarrow> bool" where
  "contains s sub =
     (re_search (\<lambda>t. if startswith t sub then Some () else None) s \<noteq> None)"

text \<open>\<^verbatim>\<open>int(digits)\<close> on a string of decimal digits.\<close>

definition digit_val :: "char \<Rightarrow> int" where
  "digit_val c = int (of_char c) - 48"

definition int_of_digits :: "string \<Rightarrow> int" where
  "int_of_digits ds = foldl (\<lambda>a c. 10 * a + digit_val c) 0 ds"

subsection \<open>The two patterns\<close>

text \<open>
  \<^verbatim>\<open>every\s+(\d+)\s+days?\<close> at the start of \<open>s\<close>, giving group 1. Each greedy run
  is followed by a character class disjoint from it, so giving characters back never
  helps and the match takes the longest runs.
\<close>

definition match_every_days :: "string \<Rightarrow> string option" where
  "match_every_days s =
     (if startswith s ''every'' then
        (let r1 = drop 5 s;
             ws1 = takeWhile is_space r1;
             r2 = dropWhile is_space r1;
             ds = takeWhile is_digit r2;
             r3 = dropWhile is_digit r2;
             ws2 = takeWhile is_space r3;
             r4 = dropWhile is_space r3
         in if ws1 \<noteq> [] \<and> ds \<noteq> [] \<and> ws2 \<noteq> [] \<and> startswith r4 ''day''
            then Some ds else None)
      else None)"

definition is_sep :: "char \<Rightarrow> bool" where
  "is_sep c = (c = CHR ''/'' \<or> c = CHR ''-'')"

text \<open>
  \<^verbatim>\<open>(\d{1,2})[/-](\d{1,2})[/-](\d{2,4})\<close> at the start of \<open>s\<close>, giving the three
  groups. A group of one or two digits must be followed by a separator, so here too the
  longest run is the only one that can match.
\<close>

definition match_date :: "string \<Rightarrow> (string \<times> string \<times> string) option" where
  "match_date s =
     (let g1 = takeWhile is_digit (take 2 s);
          r1 = drop (length g1) s
      in if g1 = [] then None
         else (case r1 of
                 [] \<Rightarrow> None
               | c1 # r2 \<Rightarrow>
                   if \<not> is_sep c1 then None
                   else (let g2 = takeWhile is_digit (take 2 r2);
                             r3 = drop (length g2) r2
                         in if g2 = [] then None
                            else (case r3 of
                                    [] \<Rightarrow> None
                                  | c2 # r4 \<Rightarrow>
                                      if \<not> is_sep c2 then None
                                      else (let g3 = takeWhile is_digit (take 4 r4)
                                            in if length g3 < 2 then None
                                               else Some (g1, g2, g3))))))"

subsection \<open>parse_schedule_string\<close>

text \<open>
  The function returns \<^verbatim>\<open>(cron, "weekly")\<close>, \<^verbatim>\<open>(next_date, "periodic", days)\<close>,
  \<^verbatim>\<open>(scheduled_date, "one-time")\<close> or \<^verbatim>\<open>(None, None)\<close>; the four shapes are the
  constructors of \<open>parsed\<close>. \<open>now\<close> is what \<^verbatim>\<open>datetime.now()\<close> returns in the call.
\<close>

datatype parsed =
    PWeekly string
  | PPeriodic datetime int
  | POneTime datetime
  | PNone

definition weekdays :: "string list" where
  "weekdays = [''monday'', ''tuesday'', ''wednesday'', ''thursday'', ''friday'',
               ''saturday'', ''sunday'']"

text \<open>The loop over \<^verbatim>\<open>enumerate(weekdays)\<close>: the index of the first day whose
  \<^verbatim>\<open>every <day>\<close> occurs in the text.\<close>

fun find_weekday :: "nat \<Rightarrow> string list \<Rightarrow> string \<Rightarrow> nat option" where
  "find_weekday i [] s = None"
| "find_weekday i (day # days) s =
     (if contains s (''every '' @ day) then Some i else find_weekday (Suc i) days s)"

definition digit_char :: "nat \<Rightarrow> char" where
  "digit_char n = ''0123456789'' ! n"

text \<open>\<^verbatim>\<open>f"0 12 * * {cron_weekday}"\<close> with \<open>cron_weekday = (i + 1) % 7\<close>, one digit.\<close>

definition cron_of_index :: "nat \<Rightarrow> string" where
  "cron_of_index i = ''0 12 * * '' @ [digit_char ((i + 1) mod 7)]"

definition parse_schedule_string :: "datetime \<Rightarrow> string \<Rightarrow> error + parsed" where
  "parse_schedule_string now schedule_string =
     (let s = strip (lower schedule_string) in
      case find_weekday 0 weekdays s of
        Some i \<Rightarrow> Inr (PWeekly (cron_of_index i))
      | None \<Rightarrow>
          (case re_search match_every_days s of
             Some ds \<Rightarrow>
               (let days = int_of_digits ds in
                case add_days now days of
                  Inl e \<Rightarrow> Inl e
                | Inr next_date \<Rightarrow> Inr (PPeriodic next_date days))
           | None \<Rightarrow>
               (case re_search match_date s of
                  Some (g1, g2, g3) \<Rightarrow>
                    (let day = int_of_digits g1;
                         month = int_of_digits g2;
                         year0 = int_of_digits g3;
                         year = (if year0 < 100 then (year_of now div 100) * 100 + year0
                                 else year0)
                     in case mk_noon year month day of
                          Inl e \<Rightarrow> Inr PNone
                        | Inr scheduled_date \<Rightarrow> Inr (POneTime scheduled_date))
                | None \<Rightarrow> Inr PNone)))"

subsection \<open>calculate_next_execution\<close>

text \<open>The result is a datetime, the schedule value itself (one-time) or \<^verbatim>\<open>None\<close>
  (an unknown schedule type).\<close>

definition calculate_next_execution ::
  "datetime \<Rightarrow> string \<Rightarrow> pyval \<Rightarrow> error + pyval option" where
  "calculate_next_execution now schedule_type schedule_value =
     (if schedule_type = ''weekly'' then
        (case croniter_get_next schedule_value now of
           Inl e \<Rightarrow> Inl e
         | Inr t \<Rightarrow> Inr (Some (VDatetime t)))
      else if schedule_type = ''periodic'' then
        (case schedule_value of
           VTuple d n \<Rightarrow> Inr (Some (VDatetime d))
         | VInt n \<Rightarrow>
             (case add_days now n of
                Inl e \<Rightarrow> Inl e
              | Inr t \<Rightarrow> Inr (Some (VDatetime t)))
         | _ \<Rightarrow> Inl TypeError)
      else if schedule_type = ''one-time'' then Inr (Some schedule_value)
      else Inr None)"

section \<open>Documents and collections\<close>

text \<open>
  An amount in ether is a Python float that the program only prints; it is carried as the
  text it was read from. The amount in wei is the integer the program computes with.
\<close>

type_synonym amount = string

text \<open>A document of \<^verbatim>\<open>wallets_collection\<close>.\<close>

record wallet =
  w_user_id :: string
  w_address :: string
  w_private_key :: string
  w_username :: "string option"

text \<open>
  An element of the \<^verbatim>\<open>notifications\<close> array of a \<^verbatim>\<open>pending_notifications\<close>
  document. Its \<^verbatim>\<open>_id\<close> is \<^verbatim>\<open>str(datetime.now().timestamp())\<close>, identified here
  with the clock reading it prints; the \<^verbatim>\<open>timestamp\<close> field, which nothing reads, is
  left out. Every writer of the program sets \<^verbatim>\<open>_id\<close> and \<^verbatim>\<open>type\<close>.
\<close>

record notification =
  n_id :: datetime
  n_type :: string
  n_amount :: amount
  n_sender_username :: string
  n_tx_hash :: "string option"
  n_new_wallet :: bool
  n_wallet_address :: "string option"
  n_private_key :: "string option"

text \<open>A document of \<^verbatim>\<open>scheduled_payments_collection\<close>; \<open>p_id\<close> is its \<^verbatim>\<open>_id\<close>.\<close>

record payment =
  p_id :: nat
  p_sender_id :: string
  p_sender_address :: string
  p_recipient_address :: string
  p_recipient_display :: string
  p_amount :: amount
  p_amount_wei :: int
  p_schedule_type :: string
  p_schedule_value :: pyval
  p_next_execution :: datetime
  p_created_at :: datetime
  p_active :: bool
  p_is_new_wallet :: bool
  p_private_key :: "string option"

text \<open>The fee quote \<^verbatim>\<open>calculate_optimal_gas\<close> returns: \<^verbatim>\<open>{gasPrice, gasLimit}\<close> or
  \<^verbatim>\<open>{maxFeePerGas, maxPriorityFeePerGas, gasLimit}\<close>. Its arithmetic is floating point
  and is not modelled: the quote is an observation.\<close>

datatype gas_params =
    Legacy int int
  | Eip1559 int int int

text \<open>A transaction as handed to \<^verbatim>\<open>sign_transaction\<close>; \<^verbatim>\<open>type: 2\<close> goes with an
  \<open>Eip1559\<close> quote.\<close>

record tx =
  tx_nonce :: int
  tx_to :: string
  tx_value :: int
  tx_gas :: gas_params
  tx_chain_id :: int

text \<open>An entry of \<^verbatim>\<open>processed_recipients\<close>. The multi-amount handler writes neither
  \<^verbatim>\<open>private_key\<close> nor \<^verbatim>\<open>username\<close>; a missing key reads as \<^verbatim>\<open>None\<close>.\<close>

record recipient =
  r_address :: string
  r_display :: string
  r_amount :: amount
  r_amount_wei :: int
  r_is_new_wallet :: bool
  r_private_key :: "string option"
  r_username :: "string option"

record pending_payment =
  pp_from_address :: string
  pp_private_key :: string
  pp_to_address :: string
  pp_display_name :: string
  pp_amount :: amount
  pp_amount_wei :: int
  pp_is_new_wallet :: bool
  pp_notification :: "notification option"

record batch_data =
  bd_from_address :: string
  bd_private_key :: string
  bd_recipients :: "recipient list"
  bd_total_amount_wei :: int
  bd_total_gas_wei :: int

text \<open>\<^verbatim>\<open>context.user_data\<close> of the user who talks to the bot.\<close>

record user_data =
  ud_payment :: "pending_payment option"
  ud_batch_payment :: "batch_data option"
  ud_batch_payment_multi :: "batch_data option"

text \<open>
  The state the handlers share: the four collections, the user's \<^verbatim>\<open>user_data\<close>, and
  \<open>chain\<close>, the transactions \<^verbatim>\<open>send_raw_transaction\<close> has accepted, in order.
  \<open>outbox\<close> maps a lower-cased username to its \<^verbatim>\<open>notifications\<close> array (empty when
  there is no document).
\<close>

record state =
  wallets :: "wallet list"
  username_mapping :: "(string \<times> string) list"
  outbox :: "string \<Rightarrow> notification list"
  scheduled :: "payment list"
  user_data :: user_data
  chain :: "tx list"

record user =
  u_id :: string
  u_username :: "string option"

subsection \<open>MongoDB data operations\<close>

definition get_wallet :: "state \<Rightarrow> string \<Rightarrow> wallet option" where
  "get_wallet s user_id = find (\<lambda>w. w_user_id w = user_id) (wallets s)"

text \<open>\<^verbatim>\<open>update_one(..., upsert=True)\<close> on the unique key \<^verbatim>\<open>user_id\<close>.\<close>

fun upsert_wallet :: "wallet \<Rightarrow> wallet list \<Rightarrow> wallet list" where
  "upsert_wallet w [] = [w]"
| "upsert_wallet w (v # vs) =
     (if w_user_id v = w_user_id w then w # vs else v # upsert_wallet w vs)"

definition save_wallet :: "state \<Rightarrow> wallet \<Rightarrow> state" where
  "save_wallet s w = s\<lparr>wallets := upsert_wallet w (wallets s)\<rparr>"

definition get_user_id_by_username :: "state \<Rightarrow> string \<Rightarrow> string option" where
  "get_user_id_by_username s username = map_of (username_mapping s) (lower username)"

text \<open>
  The second query matches the \<^verbatim>\<open>username\<close> field against \<^verbatim>\<open>^username$\<close> without
  regard to case; a Telegram username has letters, digits and underscores only, so the
  match is equality of the lower-cased names.
\<close>

definition get_wallet_by_username :: "state \<Rightarrow> string \<Rightarrow> string option \<times> wallet option" where
  "get_wallet_by_username s username =
     (let direct =
            (case get_user_id_by_username s (lower username) of
               None \<Rightarrow> None
             | Some user_id \<Rightarrow>
                 (if user_id = [] then None
                  else (case get_wallet s user_id of
                          None \<Rightarrow> None
                        | Some w \<Rightarrow> Some (user_id, w))))
      in case direct of
           Some (user_id, w) \<Rightarrow> (Some user_id, Some w)
         | None \<Rightarrow>
             (case find (\<lambda>w. case w_username w of
                                None \<Rightarrow> False
                              | Some n \<Rightarrow> lower n = lower username) (wallets s) of
                Some w \<Rightarrow> (Some (w_user_id w), Some w)
              | None \<Rightarrow> (None, None)))"

definition get_pending_notifications :: "state \<Rightarrow> string \<Rightarrow> notification list" where
  "get_pending_notifications s username = outbox s (lower username)"

definition save_pending_notification :: "state \<Rightarrow> string \<Rightarrow> notification \<Rightarrow> state" where
  "save_pending_notification s username n =
     s\<lparr>outbox := (outbox s)(lower username := outbox s (lower username) @ [n])\<rparr>"

text \<open>\<^verbatim>\<open>$pull\<close> removes every element of the array with the given \<^verbatim>\<open>_id\<close>.\<close>

definition remove_pending_notification :: "state \<Rightarrow> string \<Rightarrow> datetime \<Rightarrow> state" where
  "remove_pending_notification s username notification_id =
     s\<lparr>outbox := (outbox s)(lower username :=
          filter (\<lambda>n. n_id n \<noteq> notification_id) (outbox s (lower username)))\<rparr>"

definition get_all_due_scheduled_payments :: "datetime \<Rightarrow> state \<Rightarrow> payment list" where
  "get_all_due_scheduled_payments now s =
     filter (\<lambda>p. p_next_execution p \<le> now \<and> p_active p) (scheduled s)"

text \<open>\<^verbatim>\<open>update_one({"_id": payment_id}, {"$set": ...})\<close>: the first document with that
  \<^verbatim>\<open>_id\<close> (MongoDB keeps \<^verbatim>\<open>_id\<close> unique in a collection).\<close>

fun update_one :: "nat \<Rightarrow> (payment \<Rightarrow> payment) \<Rightarrow> payment list \<Rightarrow> payment list" where
  "update_one payment_id f [] = []"
| "update_one payment_id f (q # qs) =
     (if p_id q = payment_id then f q # qs else q # update_one payment_id f qs)"

definition update_scheduled_payment :: "state \<Rightarrow> nat \<Rightarrow> (payment \<Rightarrow> payment) \<Rightarrow> state" where
  "update_scheduled_payment s payment_id f =
     s\<lparr>scheduled := update_one payment_id f (scheduled s)\<rparr>"

text \<open>\<^verbatim>\<open>insert_one\<close>: the new document gets the \<^verbatim>\<open>_id\<close> the driver generates.\<close>

definition save_scheduled_payment :: "state \<Rightarrow> payment \<Rightarrow> state" where
  "save_scheduled_payment s p = s\<lparr>scheduled := scheduled s @ [p]\<rparr>"

subsection \<open>Fees and transactions\<close>

text \<open>\<^verbatim>\<open>gas_price * gasLimit\<close> for a legacy quote, \<^verbatim>\<open>maxFeePerGas * gasLimit\<close>
  otherwise.\<close>

definition estimated_gas_cost_wei :: "gas_params \<Rightarrow> int" where
  "estimated_gas_cost_wei g =
     (case g of
        Legacy gas_price gas_limit \<Rightarrow> gas_price * gas_limit
      | Eip1559 max_fee priority_fee gas_limit \<Rightarrow> max_fee * gas_limit)"

definition build_tx :: "int \<Rightarrow> string \<Rightarrow> int \<Rightarrow> gas_params \<Rightarrow> tx" where
  "build_tx nonce to_address amount_wei g =
     \<lparr>tx_nonce = nonce, tx_to = to_address, tx_value = amount_wei, tx_gas = g,
      tx_chain_id = 1\<rparr>"

definition ensure_0x :: "string \<Rightarrow> string" where
  "ensure_0x h = (if startswith h ''0x'' then h else ''0x'' @ h)"

text \<open>
  What the handlers draw from outside: the \<open>n\<close>-th fresh key
  \<^verbatim>\<open>"0x" + secrets.token_hex(32)\<close>, the address \<^verbatim>\<open>Account.from_key\<close> derives from a key,
  and \<^verbatim>\<open>w3.is_address\<close>.
\<close>

record env =
  e_keygen :: "nat \<Rightarrow> string"
  e_address_of :: "string \<Rightarrow> string"
  e_is_address :: "string \<Rightarrow> bool"

section \<open>The due-payment tick\<close>

text \<open>
  What the collaborators answer while one due payment is processed, in the order the
  handler asks: the sender's balance, the fee quote, the sender's transaction count, the
  signing and submission of the transaction (its hash), the clock read for the
  notification's \<^verbatim>\<open>_id\<close>, the write to the outbox, the clock read for the next
  execution, and the write to the payment record.
\<close>

record tick_obs =
  t_balance :: "error + int"
  t_gas :: "error + gas_params"
  t_tx_count :: "error + int"
  t_send :: "error + string"
  t_now_id :: datetime
  t_notify :: "error + unit"
  t_now :: datetime
  t_update :: "error + unit"

text \<open>
  The first half of the loop body of \<^verbatim>\<open>process_scheduled_payments\<close>: wallet lookup,
  balance pre-flight, transaction build, signing and submission. \<open>None\<close> when the
  payment is skipped (\<^verbatim>\<open>continue\<close>) or an exception ends the iteration before a
  transaction is accepted.
\<close>

definition submit_scheduled :: "state \<Rightarrow> tick_obs \<Rightarrow> payment \<Rightarrow> (tx \<times> string) option" where
  "submit_scheduled s ob payment =
     (case get_wallet s (p_sender_id payment) of
        None \<Rightarrow> None
      | Some wallet \<Rightarrow>
          (case t_balance ob of
             Inl e \<Rightarrow> None
           | Inr balance_wei \<Rightarrow>
               (case t_gas ob of
                  Inl e \<Rightarrow> None
                | Inr gas_params \<Rightarrow>
                    if balance_wei < p_amount_wei payment + estimated_gas_cost_wei gas_params
                    then None
                    else (case t_tx_count ob of
                            Inl e \<Rightarrow> None
                          | Inr nonce \<Rightarrow>
                              (case t_send ob of
                                 Inl e \<Rightarrow> None
                               | Inr tx_hash \<Rightarrow>
                                   Some (build_tx nonce (p_recipient_address payment)
                                           (p_amount_wei payment) gas_params, tx_hash))))))"

definition scheduled_notification :: "tick_obs \<Rightarrow> payment \<Rightarrow> string \<Rightarrow> notification" where
  "scheduled_notification ob payment tx_hash =
     \<lparr>n_id = t_now_id ob, n_type = ''received_eth'', n_amount = p_amount payment,
      n_sender_username = ''Scheduled Payment'', n_tx_hash = Some tx_hash,
      n_new_wallet = p_is_new_wallet payment, n_wallet_address = None,
      n_private_key = None\<rparr>"

text \<open>
  The \<^verbatim>\<open>$set\<close> document computed after a submission: deactivation for a one-time
  payment, the next execution otherwise. \<open>None\<close> when croniter or the date arithmetic
  raises, or the schedule type is unknown (\<^verbatim>\<open>continue\<close>).
\<close>

definition reschedule :: "tick_obs \<Rightarrow> payment \<Rightarrow> (payment \<Rightarrow> payment) option" where
  "reschedule ob payment =
     (if p_schedule_type payment = ''one-time'' then Some (\<lambda>q. q\<lparr>p_active := False\<rparr>)
      else if p_schedule_type payment = ''weekly'' then
        (case croniter_get_next (p_schedule_value payment) (t_now ob) of
           Inl e \<Rightarrow> None
         | Inr next_execution \<Rightarrow> Some (\<lambda>q. q\<lparr>p_next_execution := next_execution\<rparr>))
      else if p_schedule_type payment = ''periodic'' then
        (case p_schedule_value payment of
           VInt days \<Rightarrow>
             (case add_days (t_now ob) days of
                Inl e \<Rightarrow> None
              | Inr next_execution \<Rightarrow> Some (\<lambda>q. q\<lparr>p_next_execution := next_execution\<rparr>))
         | _ \<Rightarrow> None)
      else None)"

text \<open>
  One iteration of the loop. Every exception is caught by the iteration's own
  \<^verbatim>\<open>except\<close>, which only logs; what was done before it stays done. The message to the
  sender at the end has its own \<^verbatim>\<open>try\<close> and changes nothing.
\<close>

definition process_payment :: "tick_obs \<Rightarrow> payment \<Rightarrow> state \<Rightarrow> state" where
  "process_payment ob payment s =
     (case submit_scheduled s ob payment of
        None \<Rightarrow> s
      | Some (t, tx_hash) \<Rightarrow>
          (let s1 = s\<lparr>chain := chain s @ [t]\<rparr>;
               notified =
                 (if startswith (p_recipient_display payment) ''@'' then
                    (case t_notify ob of
                       Inl e \<Rightarrow> None
                     | Inr u \<Rightarrow>
                         Some (save_pending_notification s1
                                 (lstrip_at (p_recipient_display payment))
                                 (scheduled_notification ob payment tx_hash)))
                  else Some s1)
           in case notified of
                None \<Rightarrow> s1
              | Some s2 \<Rightarrow>
                  (case reschedule ob payment of
                     None \<Rightarrow> s2
                   | Some f \<Rightarrow>
                       (case t_update ob of
                          Inl e \<Rightarrow> s2
                        | Inr u \<Rightarrow> update_scheduled_payment s2 (p_id payment) f))))"

text \<open>The loop over the list the due query returned; \<open>obs i\<close> are the observations of
  iteration \<open>i\<close>.\<close>

fun process_due :: "(nat \<Rightarrow> tick_obs) \<Rightarrow> nat \<Rightarrow> payment list \<Rightarrow> state \<Rightarrow> state" where
  "process_due obs i [] s = s"
| "process_due obs i (payment # rest) s =
     process_due obs (Suc i) rest (process_payment (obs i) payment s)"

definition process_scheduled_payments :: "datetime \<Rightarrow> (nat \<Rightarrow> tick_obs) \<Rightarrow> state \<Rightarrow> state" where
  "process_scheduled_payments now obs s =
     process_due obs 0 (get_all_due_scheduled_payments now s) s"

text \<open>
  An iteration runs to its end: a transaction is accepted, the outbox write (made only
  for an \<^verbatim>\<open>@name\<close> recipient) does not raise, the next execution can be computed and
  the record write does not raise.
\<close>

definition dispatch_completes :: "state \<Rightarrow> tick_obs \<Rightarrow> payment \<Rightarrow> bool" where
  "dispatch_completes s ob payment =
     (submit_scheduled s ob payment \<noteq> None \<and>
      (if startswith (p_recipient_display payment) ''@'' then \<not> isl (t_notify ob) else True) \<and>
      reschedule ob payment \<noteq> None \<and>
      \<not> isl (t_update ob))"

text \<open>A periodic record of 0 days that is active and whose next execution is no later
  than \<open>T\<close>.\<close>

definition zero_day_due :: "datetime \<Rightarrow> payment \<Rightarrow> bool" where
  "zero_day_due T q =
     (p_schedule_type q = ''periodic'' \<and> p_schedule_value q = VInt 0 \<and> p_active q \<and>
      p_next_execution q \<le> T)"

text \<open>A run of ticks, each with its scan time and its observations.\<close>

fun run_ticks :: "(datetime \<times> (nat \<Rightarrow> tick_obs)) list \<Rightarrow> state \<Rightarrow> state" where
  "run_ticks [] s = s"
| "run_ticks ((now, obs) # ticks) s = run_ticks ticks (process_scheduled_payments now obs s)"

text \<open>The document with a given \<^verbatim>\<open>_id\<close>.\<close>

definition find_payment :: "nat \<Rightarrow> state \<Rightarrow> payment option" where
  "find_payment payment_id s = find (\<lambda>q. p_id q = payment_id) (scheduled s)"

section \<open>The notification outbox\<close>

text \<open>What the transport and the store answer for one notification: the hand-off
  \<^verbatim>\<open>context.bot.send_message\<close> and the \<^verbatim>\<open>$pull\<close> that follows it.\<close>

record drain_obs =
  d_send_message :: "error + unit"
  d_remove :: "error + unit"

text \<open>
  The loop of \<^verbatim>\<open>check_pending_notifications\<close> over the list read at the start. The
  result lists every hand-off that was tried, with what the transport answered, next to
  the new state. An exception in an iteration is logged and the loop goes on.
\<close>

fun drain ::
  "(nat \<Rightarrow> drain_obs) \<Rightarrow> string \<Rightarrow> nat \<Rightarrow> notification list \<Rightarrow> state
     \<Rightarrow> (notification \<times> (error + unit)) list \<times> state" where
  "drain obs username i [] s = ([], s)"
| "drain obs username i (n # ns) s =
     (if n_type n = ''received_eth'' then
        (case d_send_message (obs i) of
           Inl e \<Rightarrow>
             (let (tried, s') = drain obs username (Suc i) ns s
              in ((n, Inl e) # tried, s'))
         | Inr u \<Rightarrow>
             (let s1 = (case d_remove (obs i) of
                          Inl e \<Rightarrow> s
                        | Inr u' \<Rightarrow> remove_pending_notification s username (n_id n));
                  (tried, s') = drain obs username (Suc i) ns s1
              in ((n, Inr u) # tried, s')))
      else drain obs username (Suc i) ns s)"

text \<open>The \<^verbatim>\<open>_id\<close>s the loop pulls from the array: those of the notifications whose
  hand-off and whose \<^verbatim>\<open>$pull\<close> both went through.\<close>

fun pulled :: "(nat \<Rightarrow> drain_obs) \<Rightarrow> nat \<Rightarrow> notification list \<Rightarrow> datetime list" where
  "pulled obs i [] = []"
| "pulled obs i (n # ns) =
     (if n_type n = ''received_eth'' \<and> \<not> isl (d_send_message (obs i)) \<and> \<not> isl (d_remove (obs i))
      then n_id n # pulled obs (Suc i) ns
      else pulled obs (Suc i) ns)"

definition check_pending_notifications ::
  "(nat \<Rightarrow> drain_obs) \<Rightarrow> user \<Rightarrow> state \<Rightarrow> (notification \<times> (error + unit)) list \<times> state" where
  "check_pending_notifications obs u s =
     (case u_username u of
        None \<Rightarrow> ([], s)
      | Some name \<Rightarrow>
          if name = [] then ([], s)
          else (let username = lower name
                in drain obs username 0 (get_pending_notifications s username) s))"

section \<open>A small world for concrete runs\<close>

text \<open>Alice (user 1) has a wallet; Bob has none and has never talked to the bot. Times
  are microseconds: \<open>1750000000000000\<close> is 2025-06-15T15:06:40, a Sunday.\<close>

definition alice_wallet :: wallet where
  "alice_wallet =
     \<lparr>w_user_id = ''1'', w_address = ''0xA11CE'', w_private_key = ''0xA-KEY'',
      w_username = Some ''alice''\<rparr>"

definition empty_user_data :: user_data where
  "empty_user_data =
     \<lparr>ud_payment = None, ud_batch_payment = None, ud_batch_payment_multi = None\<rparr>"

definition one_time_payment :: payment where
  "one_time_payment =
     \<lparr>p_id = 7, p_sender_id = ''1'', p_sender_address = ''0xA11CE'',
      p_recipient_address = ''0xB0B'', p_recipient_display = ''@bob'', p_amount = ''0.01'',
      p_amount_wei = 10000000000000000, p_schedule_type = ''one-time'',
      p_schedule_value = VDatetime 1749988800000000, p_next_execution = 1749988800000000,
      p_created_at = 1749000000000000, p_active = True, p_is_new_wallet = False,
      p_private_key = None\<rparr>"

definition world_with :: "payment list \<Rightarrow> state" where
  "world_with ps =
     \<lparr>wallets = [alice_wallet], username_mapping = [(''alice'', ''1'')],
      outbox = (\<lambda>u. []), scheduled = ps, user_data = empty_user_data, chain = []\<rparr>"

text \<open>A node that answers every question and accepts the transaction, one second after
  the scan at \<open>1750000000000000\<close>; and the same node seeing a balance of 5 wei.\<close>

definition good_tick :: tick_obs where
  "good_tick =
     \<lparr>t_balance = Inr 50000000000000000, t_gas = Inr (Eip1559 30000000000 2000000000 21000),
      t_tx_count = Inr 4, t_send = Inr ''0xfeed'', t_now_id = 1750000001000000,
      t_notify = Inr (), t_now = 1750000001000000, t_update = Inr ()\<rparr>"

definition poor_tick :: tick_obs where
  "poor_tick = good_tick\<lparr>t_balance := Inr 5\<rparr>"

text \<open>The record \<^verbatim>\<open>/schedule @bob 0.01 every 0 days\<close> leaves behind.\<close>

definition zero_day_payment :: payment where
  "zero_day_payment =
     one_time_payment\<lparr>p_id := 8, p_schedule_type := ''periodic'', p_schedule_value := VInt 0\<rparr>"

definition three_day_payment :: payment where
  "three_day_payment =
     one_time_payment\<lparr>p_id := 9, p_schedule_type := ''periodic'', p_schedule_value := VInt 3\<rparr>"

text \<open>Bob (user 2) comes to the bot with two notifications waiting; the transport fails
  on the first hand-off and works afterwards.\<close>

definition bob :: user where
  "bob = \<lparr>u_id = ''2'', u_username = Some ''Bob''\<rparr>"

definition note_one :: notification where
  "note_one =
     \<lparr>n_id = 1749990000000001, n_type = ''received_eth'', n_amount = ''0.01'',
      n_sender_username = ''alice'', n_tx_hash = Some ''0xfeed'', n_new_wallet = False,
      n_wallet_address = None, n_private_key = None\<rparr>"

definition note_two :: notification where
  "note_two = note_one\<lparr>n_id := 1749990000000002, n_tx_hash := Some ''0xbeef''\<rparr>"

definition bob_world :: state where
  "bob_world = (world_with [])\<lparr>outbox := (\<lambda>u. if u = ''bob'' then [note_one, note_two] else [])\<rparr>"

definition flaky_transport :: "nat \<Rightarrow> drain_obs" where
  "flaky_transport i =
     (if i = 0 then \<lparr>d_send_message = Inl (TelegramError ''timed out''), d_remove = Inr ()\<rparr>
      else \<lparr>d_send_message = Inr (), d_remove = Inr ()\<rparr>)"

section \<open>Immediate and batch payments\<close>

text \<open>
  The messages a handler sends to the user, by what they say; the rendering of amounts
  in ether and of prices is left out. \<open>InsufficientBalance required available\<close> carries
  the two amounts of the shortfall message, in wei.
\<close>

datatype result =
    Success string amount string bool string
  | Failed string amount error

datatype reply =
    NoWalletYet
  | CantPayYourself
  | SkippingYourself string
  | InvalidAddress
  | SkippingInvalidAddress string
  | SkippingInvalidFormat string
  | SkippingInvalidAmount string string
  | NoValidRecipients
  | InsufficientBalance int int
  | ConfirmPayment string string amount
  | ConfirmBatch nat int int
  | PaymentDataNotFound
  | BatchDataNotFound
  | InvalidCallbackData
  | WalletNotFound
  | PaymentSent string
  | ErrorSendingTransaction error
  | BatchResults nat nat nat "result list"
  | InvalidScheduleFormat
  | NoNextExecution
  | ErrorSavingSchedule
  | PaymentScheduled nat datetime

text \<open>What a handler leaves behind: the messages it sent, the state, and the exception
  that ended it when one escaped (the application's error handler then logs it).\<close>

record outcome =
  replies :: "reply list"
  after :: state
  raised :: "error option"

definition finish :: "reply list \<Rightarrow> state \<Rightarrow> outcome" where
  "finish rs s = \<lparr>replies = rs, after = s, raised = None\<rparr>"

definition escape :: "error \<Rightarrow> reply list \<Rightarrow> state \<Rightarrow> outcome" where
  "escape err rs s = \<lparr>replies = rs, after = s, raised = Some err\<rparr>"

text \<open>\<^verbatim>\<open>query.from_user.username or "Unknown"\<close>.\<close>

definition username_or_unknown :: "string option \<Rightarrow> string" where
  "username_or_unknown name =
     (case name of None \<Rightarrow> ''Unknown'' | Some n \<Rightarrow> if n = [] then ''Unknown'' else n)"

subsection \<open>pay\<close>

text \<open>The clock read for the notification's \<^verbatim>\<open>_id\<close>, the sender's balance and the
  fee quote.\<close>

record pay_obs =
  po_now_id :: datetime
  po_balance :: "error + int"
  po_gas :: "error + gas_params"

text \<open>
  The handler from \<^verbatim>\<open>Check sender's balance\<close> on: the pre-flight and, when it passes,
  the payment parked in \<^verbatim>\<open>user_data\<close> for the confirmation button.
\<close>

definition pay_preflight ::
  "pay_obs \<Rightarrow> state \<Rightarrow> wallet \<Rightarrow> string \<Rightarrow> string \<Rightarrow> amount \<Rightarrow> int \<Rightarrow> bool
     \<Rightarrow> notification option \<Rightarrow> outcome" where
  "pay_preflight ob s wallet recipient_address display_name amount amount_wei is_new_wallet
     notification =
     (case po_balance ob of
        Inl err \<Rightarrow> escape err [] s
      | Inr balance_wei \<Rightarrow>
          (case po_gas ob of
             Inl err \<Rightarrow> escape err [] s
           | Inr gas_params \<Rightarrow>
               (let estimated = estimated_gas_cost_wei gas_params in
                if balance_wei < amount_wei + estimated
                then finish [InsufficientBalance (amount_wei + estimated) balance_wei] s
                else finish [ConfirmPayment (w_address wallet) display_name amount]
                       (s\<lparr>user_data := (user_data s)\<lparr>ud_payment := Some
                           \<lparr>pp_from_address = w_address wallet,
                            pp_private_key = w_private_key wallet,
                            pp_to_address = recipient_address,
                            pp_display_name = display_name,
                            pp_amount = amount,
                            pp_amount_wei = amount_wei,
                            pp_is_new_wallet = is_new_wallet,
                            pp_notification = notification\<rparr>\<rparr>\<rparr>))))"

text \<open>
  \<^verbatim>\<open>pay\<close> after its arguments are read: \<open>recipient\<close> is the first argument, \<open>amount\<close>
  the second, \<open>amount_wei\<close> what \<^verbatim>\<open>w3.to_wei\<close> made of it. A recipient without a wallet
  gets a fresh key pair, and the key travels in the notification.
\<close>

definition pay ::
  "env \<Rightarrow> pay_obs \<Rightarrow> user \<Rightarrow> string \<Rightarrow> amount \<Rightarrow> int \<Rightarrow> state \<Rightarrow> outcome" where
  "pay e ob u recipient amount amount_wei s =
     (case get_wallet s (u_id u) of
        None \<Rightarrow> finish [NoWalletYet] s
      | Some wallet \<Rightarrow>
          if startswith recipient ''@'' then
            (let username = lstrip_at recipient in
             case u_username u of
               None \<Rightarrow> escape AttributeError [] s
             | Some sender_username \<Rightarrow>
                 if lower username = lower sender_username then finish [CantPayYourself] s
                 else
                   (case snd (get_wallet_by_username s username) of
                      None \<Rightarrow>
                        (let new_private_key = e_keygen e 0;
                             recipient_address = e_address_of e new_private_key
                         in pay_preflight ob s wallet recipient_address (''@'' @ username)
                              amount amount_wei True
                              (Some \<lparr>n_id = po_now_id ob, n_type = ''received_eth'',
                                     n_amount = amount,
                                     n_sender_username = username_or_unknown (u_username u),
                                     n_tx_hash = None, n_new_wallet = True,
                                     n_wallet_address = Some recipient_address,
                                     n_private_key = Some new_private_key\<rparr>))
                    | Some recipient_wallet \<Rightarrow>
                        pay_preflight ob s wallet (w_address recipient_wallet) (''@'' @ username)
                          amount amount_wei False
                          (Some \<lparr>n_id = po_now_id ob, n_type = ''received_eth'',
                                 n_amount = amount,
                                 n_sender_username = username_or_unknown (u_username u),
                                 n_tx_hash = None, n_new_wallet = False,
                                 n_wallet_address = None, n_private_key = None\<rparr>)))
          else if \<not> e_is_address e recipient then finish [InvalidAddress] s
          else pay_preflight ob s wallet recipient recipient amount amount_wei False None)"

subsection \<open>confirm_payment\<close>

text \<open>The fee quote, the transaction count, signing and submission, the edit of the
  message that reports success, and the write to the outbox.\<close>

record confirm_obs =
  c_gas :: "error + gas_params"
  c_tx_count :: "error + int"
  c_send :: "error + string"
  c_edit :: "error + unit"
  c_notify :: "error + unit"

definition clear_payment :: "state \<Rightarrow> state" where
  "clear_payment s = s\<lparr>user_data := (user_data s)\<lparr>ud_payment := None\<rparr>\<rparr>"

text \<open>The \<^verbatim>\<open>try\<close> block sends and then records; its \<^verbatim>\<open>except\<close> reports the error;
  its \<^verbatim>\<open>finally\<close> clears the parked payment.\<close>

definition confirm_payment :: "confirm_obs \<Rightarrow> state \<Rightarrow> outcome" where
  "confirm_payment ob s =
     (case ud_payment (user_data s) of
        None \<Rightarrow> finish [PaymentDataNotFound] s
      | Some payment \<Rightarrow>
          (case c_gas ob of
             Inl err \<Rightarrow> finish [ErrorSendingTransaction err] (clear_payment s)
           | Inr gas_params \<Rightarrow>
               (case c_tx_count ob of
                  Inl err \<Rightarrow> finish [ErrorSendingTransaction err] (clear_payment s)
                | Inr nonce \<Rightarrow>
                    (case c_send ob of
                       Inl err \<Rightarrow> finish [ErrorSendingTransaction err] (clear_payment s)
                     | Inr raw_hash \<Rightarrow>
                         (let tx_hash_hex = ensure_0x raw_hash;
                              s1 = s\<lparr>chain := chain s @
                                     [build_tx nonce (pp_to_address payment)
                                        (pp_amount_wei payment) gas_params]\<rparr>
                          in case c_edit ob of
                               Inl err \<Rightarrow>
                                 finish [ErrorSendingTransaction err] (clear_payment s1)
                             | Inr u \<Rightarrow>
                                 (case pp_notification payment of
                                    None \<Rightarrow> finish [PaymentSent tx_hash_hex] (clear_payment s1)
                                  | Some notification \<Rightarrow>
                                      (case c_notify ob of
                                         Inl err \<Rightarrow>
                                           finish [PaymentSent tx_hash_hex,
                                                   ErrorSendingTransaction err]
                                             (clear_payment s1)
                                       | Inr u' \<Rightarrow>
                                           finish [PaymentSent tx_hash_hex]
                                             (clear_payment
                                                (save_pending_notification s1
                                                   (lstrip_at (pp_display_name payment))
                                                   (notification\<lparr>n_tx_hash :=
                                                      Some tx_hash_hex\<rparr>))))))))))"

subsection \<open>batch_payment and batch_payment_multi\<close>

text \<open>The sender's balance and the fee quote, read once after the recipients are
  resolved.\<close>

record batch_pre_obs =
  bp_balance :: "error + int"
  bp_gas :: "error + gas_params"

text \<open>A loop over recipients hands on the messages sent so far, the processed
  recipients, the state, and the exception that ended it, if any.\<close>

record resolved =
  rv_replies :: "reply list"
  rv_recipients :: "recipient list"
  rv_state :: state
  rv_raised :: "error option"

text \<open>
  The loop \<^verbatim>\<open>for recipient in recipient_list\<close> of \<^verbatim>\<open>batch_payment\<close>; \<open>i\<close> counts the
  iterations and numbers the fresh keys. A recipient without a wallet gets a fresh key
  pair and its entry keeps the key. \<^verbatim>\<open>get_wallet_by_username\<close> answers with a user id
  only together with a wallet, so the branch that stores the new wallet is never taken;
  it is modelled all the same.
\<close>

fun batch_recipients ::
  "env \<Rightarrow> user \<Rightarrow> amount \<Rightarrow> int \<Rightarrow> nat \<Rightarrow> string list \<Rightarrow> resolved \<Rightarrow> resolved" where
  "batch_recipients e u amount amount_wei i [] acc = acc"
| "batch_recipients e u amount amount_wei i (raw # rest) acc =
     (let recipient = strip raw; s = rv_state acc in
      if startswith recipient ''@'' then
        (let username_to_send = lstrip_at recipient in
         case u_username u of
           None \<Rightarrow> acc\<lparr>rv_raised := Some AttributeError\<rparr>
         | Some username \<Rightarrow>
             if lower username_to_send = lower username then
               batch_recipients e u amount amount_wei (Suc i) rest
                 (acc\<lparr>rv_replies := rv_replies acc @ [SkippingYourself recipient]\<rparr>)
             else
               (case get_wallet_by_username s username_to_send of
                  (user_id_recipient, None) \<Rightarrow>
                    (let new_private_key = e_keygen e i;
                         recipient_address = e_address_of e new_private_key;
                         s' = (case user_id_recipient of
                                 None \<Rightarrow> s
                               | Some uid \<Rightarrow>
                                   if uid = [] then s
                                   else save_wallet s
                                          \<lparr>w_user_id = uid, w_address = recipient_address,
                                           w_private_key = new_private_key,
                                           w_username = Some username_to_send\<rparr>)
                     in batch_recipients e u amount amount_wei (Suc i) rest
                          (acc\<lparr>rv_state := s',
                               rv_recipients := rv_recipients acc @
                                 [\<lparr>r_address = recipient_address,
                                   r_display = ''@'' @ username_to_send,
                                   r_amount = amount, r_amount_wei = amount_wei,
                                   r_is_new_wallet = True,
                                   r_private_key = Some new_private_key,
                                   r_username = Some username_to_send\<rparr>]\<rparr>))
                | (user_id_recipient, Some recipient_wallet) \<Rightarrow>
                    batch_recipients e u amount amount_wei (Suc i) rest
                      (acc\<lparr>rv_recipients := rv_recipients acc @
                             [\<lparr>r_address = w_address recipient_wallet,
                               r_display = ''@'' @ username_to_send,
                               r_amount = amount, r_amount_wei = amount_wei,
                               r_is_new_wallet = False, r_private_key = None,
                               r_username = Some username_to_send\<rparr>]\<rparr>)))
      else if \<not> e_is_address e recipient then
        batch_recipients e u amount amount_wei (Suc i) rest
          (acc\<lparr>rv_replies := rv_replies acc @ [SkippingInvalidAddress recipient]\<rparr>)
      else
        batch_recipients e u amount amount_wei (Suc i) rest
          (acc\<lparr>rv_recipients := rv_recipients acc @
                 [\<lparr>r_address = recipient, r_display = recipient, r_amount = amount,
                   r_amount_wei = amount_wei, r_is_new_wallet = False,
                   r_private_key = None, r_username = None\<rparr>]\<rparr>))"

text \<open>
  An element of the argument of \<^verbatim>\<open>/batchpaymulti\<close> after the split at \<^verbatim>\<open>:\<close> and the
  conversion of the amount: not two parts, an amount \<^verbatim>\<open>float\<close> refuses, or a recipient
  with its amount in ether and in wei.
\<close>

datatype pair_input =
    Malformed string
  | BadAmount string string
  | Pair string amount int

text \<open>
  The loop \<^verbatim>\<open>for pair in recipient_pairs\<close> of \<^verbatim>\<open>batch_payment_multi\<close>. A recipient
  without a wallet gets a fresh key pair here too, but the entry written to
  \<^verbatim>\<open>processed_recipients\<close> has no \<^verbatim>\<open>private_key\<close> and no wallet is stored.
\<close>

fun multi_recipients ::
  "env \<Rightarrow> user \<Rightarrow> nat \<Rightarrow> pair_input list \<Rightarrow> resolved \<Rightarrow> resolved" where
  "multi_recipients e u i [] acc = acc"
| "multi_recipients e u i (Malformed pair # rest) acc =
     multi_recipients e u (Suc i) rest
       (acc\<lparr>rv_replies := rv_replies acc @ [SkippingInvalidFormat pair]\<rparr>)"
| "multi_recipients e u i (BadAmount raw amount_str # rest) acc =
     multi_recipients e u (Suc i) rest
       (acc\<lparr>rv_replies := rv_replies acc @ [SkippingInvalidAmount (strip raw) amount_str]\<rparr>)"
| "multi_recipients e u i (Pair raw amount amount_wei # rest) acc =
     (let recipient = strip raw; s = rv_state acc in
      if startswith recipient ''@'' then
        (let username_to_send = lstrip_at recipient in
         case u_username u of
           None \<Rightarrow> acc\<lparr>rv_raised := Some AttributeError\<rparr>
         | Some username \<Rightarrow>
             if lower username_to_send = lower username then
               multi_recipients e u (Suc i) rest
                 (acc\<lparr>rv_replies := rv_replies acc @ [SkippingYourself recipient]\<rparr>)
             else
               (case snd (get_wallet_by_username s username_to_send) of
                  None \<Rightarrow>
                    (let new_private_key = e_keygen e i;
                         recipient_address = e_address_of e new_private_key
                     in multi_recipients e u (Suc i) rest
                          (acc\<lparr>rv_recipients := rv_recipients acc @
                                 [\<lparr>r_address = recipient_address,
                                   r_display = ''@'' @ username_to_send,
                                   r_amount = amount, r_amount_wei = amount_wei,
                                   r_is_new_wallet = True, r_private_key = None,
                                   r_username = None\<rparr>]\<rparr>))
                | Some recipient_wallet \<Rightarrow>
                    multi_recipients e u (Suc i) rest
                      (acc\<lparr>rv_recipients := rv_recipients acc @
                             [\<lparr>r_address = w_address recipient_wallet,
                               r_display = ''@'' @ username_to_send,
                               r_amount = amount, r_amount_wei = amount_wei,
                               r_is_new_wallet = False, r_private_key = None,
                               r_username = None\<rparr>]\<rparr>)))
      else if \<not> e_is_address e recipient then
        multi_recipients e u (Suc i) rest
          (acc\<lparr>rv_replies := rv_replies acc @ [SkippingInvalidAddress recipient]\<rparr>)
      else
        multi_recipients e u (Suc i) rest
          (acc\<lparr>rv_recipients := rv_recipients acc @
                 [\<lparr>r_address = recipient, r_display = recipient, r_amount = amount,
                   r_amount_wei = amount_wei, r_is_new_wallet = False,
                   r_private_key = None, r_username = None\<rparr>]\<rparr>))"

text \<open>
  Both handlers from \<^verbatim>\<open>if len(processed_recipients) == 0\<close> on: the aggregate pre-flight
  and, when it passes, the batch parked in \<^verbatim>\<open>user_data\<close> under the handler's key.
\<close>

definition batch_preflight ::
  "batch_pre_obs \<Rightarrow> bool \<Rightarrow> wallet \<Rightarrow> resolved \<Rightarrow> outcome" where
  "batch_preflight ob is_multi wallet rv =
     (let processed_recipients = rv_recipients rv; s = rv_state rv; sent = rv_replies rv in
      case rv_raised rv of
        Some err \<Rightarrow> escape err sent s
      | None \<Rightarrow>
          if length processed_recipients = 0 then finish (sent @ [NoValidRecipients]) s
          else
            (case bp_balance ob of
               Inl err \<Rightarrow> escape err sent s
             | Inr balance_wei \<Rightarrow>
                 (case bp_gas ob of
                    Inl err \<Rightarrow> escape err sent s
                  | Inr gas_params \<Rightarrow>
                      (let estimated_gas_cost = estimated_gas_cost_wei gas_params;
                           total_amount_wei = sum_list (map r_amount_wei processed_recipients);
                           total_gas_wei = estimated_gas_cost * int (length processed_recipients);
                           total_cost_wei = total_amount_wei + total_gas_wei
                       in if balance_wei < total_cost_wei
                          then finish (sent @ [InsufficientBalance total_cost_wei balance_wei]) s
                          else
                            (let data = \<lparr>bd_from_address = w_address wallet,
                                         bd_private_key = w_private_key wallet,
                                         bd_recipients = processed_recipients,
                                         bd_total_amount_wei = total_amount_wei,
                                         bd_total_gas_wei = total_gas_wei\<rparr>
                             in finish
                                  (sent @ [ConfirmBatch (length processed_recipients)
                                             total_amount_wei total_gas_wei])
                                  (s\<lparr>user_data :=
                                       (if is_multi
                                        then (user_data s)\<lparr>ud_batch_payment_multi := Some data\<rparr>
                                        else (user_data s)\<lparr>ud_batch_payment := Some data\<rparr>)\<rparr>))))))"

definition start_resolving :: "state \<Rightarrow> resolved" where
  "start_resolving s =
     \<lparr>rv_replies = [], rv_recipients = [], rv_state = s, rv_raised = None\<rparr>"

text \<open>\<^verbatim>\<open>batch_payment\<close> after its arguments are read: the recipients are the first
  argument split at the commas.\<close>

definition batch_payment ::
  "env \<Rightarrow> batch_pre_obs \<Rightarrow> user \<Rightarrow> string list \<Rightarrow> amount \<Rightarrow> int \<Rightarrow> state \<Rightarrow> outcome" where
  "batch_payment e ob u recipient_list amount amount_wei s =
     (case get_wallet s (u_id u) of
        None \<Rightarrow> finish [NoWalletYet] s
      | Some wallet \<Rightarrow>
          batch_preflight ob False wallet
            (batch_recipients e u amount amount_wei 0 recipient_list (start_resolving s)))"

definition batch_payment_multi ::
  "env \<Rightarrow> batch_pre_obs \<Rightarrow> user \<Rightarrow> pair_input list \<Rightarrow> state \<Rightarrow> outcome" where
  "batch_payment_multi e ob u recipient_pairs s =
     (case get_wallet s (u_id u) of
        None \<Rightarrow> finish [NoWalletYet] s
      | Some wallet \<Rightarrow>
          batch_preflight ob True wallet
            (multi_recipients e u 0 recipient_pairs (start_resolving s)))"

subsection \<open>process_batch_transaction\<close>

text \<open>What the collaborators answer in one iteration of the sending loop: the sender's
  transaction count, the fee quote, signing and submission, the clock read for the
  notification's \<^verbatim>\<open>_id\<close>, and the write to the outbox.\<close>

record batch_obs =
  b_tx_count :: "error + int"
  b_gas :: "error + gas_params"
  b_send :: "error + string"
  b_now_id :: datetime
  b_notify :: "error + unit"

definition batch_notification ::
  "batch_obs \<Rightarrow> string option \<Rightarrow> recipient \<Rightarrow> string \<Rightarrow> notification" where
  "batch_notification ob sender_username recipient tx_hash =
     (let with_wallet =
            (r_is_new_wallet recipient \<and>
             (case r_private_key recipient of None \<Rightarrow> False | Some k \<Rightarrow> k \<noteq> []))
      in \<lparr>n_id = b_now_id ob, n_type = ''received_eth'', n_amount = r_amount recipient,
          n_sender_username = username_or_unknown sender_username,
          n_tx_hash = Some tx_hash, n_new_wallet = r_is_new_wallet recipient,
          n_wallet_address = (if with_wallet then Some (r_address recipient) else None),
          n_private_key = (if with_wallet then r_private_key recipient else None)\<rparr>)"

text \<open>
  The body of \<^verbatim>\<open>for i, recipient in enumerate(recipients, 1)\<close>. The success entry is
  appended right after the submission; an exception anywhere in the \<^verbatim>\<open>try\<close>, the
  outbox write included, appends a failed entry.
\<close>

definition batch_step ::
  "batch_obs \<Rightarrow> string option \<Rightarrow> nat \<Rightarrow> recipient \<Rightarrow> result list \<times> state
     \<Rightarrow> result list \<times> state" where
  "batch_step ob sender_username i recipient acc =
     (let results = fst acc; s = snd acc;
          display_name = r_display recipient;
          failed = (\<lambda>err. Failed display_name (r_amount recipient) err)
      in case b_tx_count ob of
           Inl err \<Rightarrow> (results @ [failed err], s)
         | Inr tx_count \<Rightarrow>
             (let nonce = tx_count + int i - 1 in
              case b_gas ob of
                Inl err \<Rightarrow> (results @ [failed err], s)
              | Inr gas_params \<Rightarrow>
                  (case b_send ob of
                     Inl err \<Rightarrow> (results @ [failed err], s)
                   | Inr tx_hash \<Rightarrow>
                       (let s1 = s\<lparr>chain := chain s @
                                    [build_tx nonce (r_address recipient)
                                       (r_amount_wei recipient) gas_params]\<rparr>;
                            results1 = results @
                              [Success display_name (r_amount recipient) tx_hash
                                 (r_is_new_wallet recipient) (r_address recipient)]
                        in if startswith display_name ''@'' then
                             (case b_notify ob of
                                Inl err \<Rightarrow> (results1 @ [failed err], s1)
                              | Inr u \<Rightarrow>
                                  (results1,
                                   save_pending_notification s1 (lstrip_at display_name)
                                     (batch_notification ob sender_username recipient tx_hash)))
                           else (results1, s1)))))"

fun batch_loop ::
  "(nat \<Rightarrow> batch_obs) \<Rightarrow> string option \<Rightarrow> nat \<Rightarrow> recipient list \<Rightarrow> result list \<times> state
     \<Rightarrow> result list \<times> state" where
  "batch_loop obs sender_username i [] acc = acc"
| "batch_loop obs sender_username i (recipient # rest) acc =
     batch_loop obs sender_username (Suc i) rest
       (batch_step (obs i) sender_username i recipient acc)"

definition is_success :: "result \<Rightarrow> bool" where
  "is_success r = (case r of Success d a h n t \<Rightarrow> True | Failed d a err \<Rightarrow> False)"

text \<open>
  The handler of the confirmation button; \<open>callback_data\<close> says which of the two parked
  batches is meant. The summary counts the success entries and takes the rest of the
  entries as failed.
\<close>

definition process_batch_transaction ::
  "(nat \<Rightarrow> batch_obs) \<Rightarrow> user \<Rightarrow> string \<Rightarrow> state \<Rightarrow> outcome" where
  "process_batch_transaction obs u callback_data s =
     (let is_multi = startswith callback_data ''confirm_batch_multi_'';
          parked =
            (if is_multi then Inr (ud_batch_payment_multi (user_data s))
             else if startswith callback_data ''confirm_batch_''
             then Inr (ud_batch_payment (user_data s))
             else Inl InvalidCallbackData)
      in case parked of
           Inl r \<Rightarrow> finish [r] s
         | Inr None \<Rightarrow> finish [BatchDataNotFound] s
         | Inr (Some batch_data) \<Rightarrow>
             (case get_wallet s (u_id u) of
                None \<Rightarrow> finish [WalletNotFound] s
              | Some wallet \<Rightarrow>
                  (let (results, s1) =
                         batch_loop obs (u_username u) 1 (bd_recipients batch_data) ([], s);
                       success_count = length (filter is_success results);
                       failed_count = length results - success_count;
                       s2 = s1\<lparr>user_data :=
                                 (if is_multi
                                  then (user_data s1)\<lparr>ud_batch_payment_multi := None\<rparr>
                                  else (user_data s1)\<lparr>ud_batch_payment := None\<rparr>)\<rparr>
                   in finish [BatchResults (length results) success_count failed_count results]
                        s2)))"

subsection \<open>schedule_payment\<close>

text \<open>The clock reads of the parser, of the next-execution calculation and of
  \<^verbatim>\<open>created_at\<close>, and the insert into the collection: the new \<^verbatim>\<open>_id\<close>, or the
  exception \<^verbatim>\<open>save_scheduled_payment\<close> re-raises.\<close>

record schedule_obs =
  so_now_parse :: datetime
  so_now_calc :: datetime
  so_now_created :: datetime
  so_insert :: "error + nat"

text \<open>
  \<^verbatim>\<open>schedule_value, schedule_type, *extra = parse_schedule_string(...)\<close> and the value the
  handler passes on and stores: \<^verbatim>\<open>extra[0]\<close>, the number of days, for a periodic
  schedule, the parsed value otherwise. \<open>None\<close> stands for the reply about an invalid
  format.
\<close>

definition schedule_of_parsed :: "parsed \<Rightarrow> (string \<times> pyval) option" where
  "schedule_of_parsed sch =
     (case sch of
        PWeekly cron \<Rightarrow> if cron = [] then None else Some (''weekly'', VStr cron)
      | PPeriodic next_date days \<Rightarrow> Some (''periodic'', VInt days)
      | POneTime scheduled_date \<Rightarrow> Some (''one-time'', VDatetime scheduled_date)
      | PNone \<Rightarrow> None)"

text \<open>
  The handler from \<^verbatim>\<open>Create the scheduled payment\<close> on. The key of a fresh wallet is
  attached to the record.
\<close>

definition schedule_save ::
  "schedule_obs \<Rightarrow> user \<Rightarrow> wallet \<Rightarrow> string \<Rightarrow> string \<Rightarrow> amount \<Rightarrow> int \<Rightarrow> string \<Rightarrow> pyval
     \<Rightarrow> datetime \<Rightarrow> bool \<Rightarrow> string option \<Rightarrow> state \<Rightarrow> outcome" where
  "schedule_save ob u wallet recipient_address display_name amount amount_wei schedule_type
     schedule_value next_execution is_new_wallet new_private_key s =
     (case so_insert ob of
        Inl err \<Rightarrow> finish [ErrorSavingSchedule] s
      | Inr payment_id \<Rightarrow>
          finish [PaymentScheduled payment_id next_execution]
            (save_scheduled_payment s
               \<lparr>p_id = payment_id, p_sender_id = u_id u, p_sender_address = w_address wallet,
                p_recipient_address = recipient_address, p_recipient_display = display_name,
                p_amount = amount, p_amount_wei = amount_wei,
                p_schedule_type = schedule_type, p_schedule_value = schedule_value,
                p_next_execution = next_execution, p_created_at = so_now_created ob,
                p_active = True, p_is_new_wallet = is_new_wallet,
                p_private_key =
                  (if is_new_wallet \<and> (case new_private_key of None \<Rightarrow> False
                                         | Some k \<Rightarrow> k \<noteq> [])
                   then new_private_key else None)\<rparr>))"

text \<open>
  \<^verbatim>\<open>schedule_payment\<close> after its arguments are read. For every schedule the parser
  returns the calculation gives a datetime; the branch for any other value is there to
  make the function total.
\<close>

definition schedule_payment ::
  "env \<Rightarrow> schedule_obs \<Rightarrow> user \<Rightarrow> string \<Rightarrow> amount \<Rightarrow> int \<Rightarrow> string \<Rightarrow> state \<Rightarrow> outcome" where
  "schedule_payment e ob u recipient amount amount_wei schedule_str s =
     (case get_wallet s (u_id u) of
        None \<Rightarrow> finish [NoWalletYet] s
      | Some wallet \<Rightarrow>
          (case parse_schedule_string (so_now_parse ob) schedule_str of
             Inl err \<Rightarrow> escape err [] s
           | Inr sch \<Rightarrow>
               (case schedule_of_parsed sch of
                  None \<Rightarrow> finish [InvalidScheduleFormat] s
                | Some (schedule_type, schedule_value) \<Rightarrow>
                    (case calculate_next_execution (so_now_calc ob) schedule_type schedule_value of
                       Inl err \<Rightarrow> escape err [] s
                     | Inr None \<Rightarrow> finish [NoNextExecution] s
                     | Inr (Some (VDatetime next_execution)) \<Rightarrow>
                         if startswith recipient ''@'' then
                           (let username_to_send = lstrip_at recipient in
                            case u_username u of
                              None \<Rightarrow> escape AttributeError [] s
                            | Some username \<Rightarrow>
                                if lower username_to_send = lower username
                                then finish [CantPayYourself] s
                                else
                                  (case get_wallet_by_username s username_to_send of
                                     (user_id_recipient, None) \<Rightarrow>
                                       (let new_private_key = e_keygen e 0;
                                            recipient_address = e_address_of e new_private_key;
                                            s' = (case user_id_recipient of
                                                    None \<Rightarrow> s
                                                  | Some uid \<Rightarrow>
                                                      if uid = [] then s
                                                      else save_wallet s
                                                             \<lparr>w_user_id = uid,
                                                              w_address = recipient_address,
                                                              w_private_key = new_private_key,
                                                              w_username = Some username_to_send\<rparr>)
                                        in schedule_save ob u wallet recipient_address
                                             (''@'' @ username_to_send) amount amount_wei
                                             schedule_type schedule_value next_execution True
                                             (Some new_private_key) s')
                                   | (user_id_recipient, Some recipient_wallet) \<Rightarrow>
                                       schedule_save ob u wallet (w_address recipient_wallet)
                                         (''@'' @ username_to_send) amount amount_wei
                                         schedule_type schedule_value next_execution False None s))
                         else if \<not> e_is_address e recipient then finish [InvalidAddress] s
                         else schedule_save ob u wallet recipient recipient amount amount_wei
                                schedule_type schedule_value next_execution False None s
                     | Inr (Some other) \<Rightarrow> escape TypeError [] s))))"

section \<open>Concrete runs of the payment handlers\<close>

text \<open>Alice is the sender. Carol (user 3) has a wallet; Bob has none. Keys and addresses
  are short stand-ins; an address is whatever starts with \<^verbatim>\<open>0x\<close>.\<close>

definition alice :: user where
  "alice = \<lparr>u_id = ''1'', u_username = Some ''alice''\<rparr>"

definition carol_wallet :: wallet where
  "carol_wallet =
     \<lparr>w_user_id = ''3'', w_address = ''0xCA401'', w_private_key = ''0xC-KEY'',
      w_username = Some ''carol''\<rparr>"

definition town :: state where
  "town = (world_with [])\<lparr>wallets := [alice_wallet, carol_wallet],
             username_mapping := [(''alice'', ''1''), (''carol'', ''3'')]\<rparr>"

definition example_env :: env where
  "example_env =
     \<lparr>e_keygen = (\<lambda>i. ''0xFRESH-KEY''), e_address_of = (\<lambda>k. ''0xADDRESS-OF-'' @ drop 2 k),
      e_is_address = (\<lambda>a. startswith a ''0x'')\<rparr>"

definition rich :: batch_pre_obs where
  "rich = \<lparr>bp_balance = Inr 1000000000000000000, bp_gas = Inr (Legacy 20000000000 21000)\<rparr>"

text \<open>A node that accepts every transaction and reports the same transaction count, 5,
  throughout; and a store that takes every write.\<close>

definition steady :: "nat \<Rightarrow> batch_obs" where
  "steady i =
     \<lparr>b_tx_count = Inr 5, b_gas = Inr (Legacy 20000000000 21000), b_send = Inr ''feed'',
      b_now_id = 1750000002000000 + int i, b_notify = Inr ()\<rparr>"

text \<open>The same node when the first transaction of the batch is mined before the second
  iteration asks for the count.\<close>

definition mined_between :: "nat \<Rightarrow> batch_obs" where
  "mined_between i = (if i = 1 then steady i else (steady i)\<lparr>b_tx_count := Inr 6\<rparr>)"

text \<open>The same node when the store refuses the write to the outbox.\<close>

definition store_down :: "nat \<Rightarrow> batch_obs" where
  "store_down i = (steady i)\<lparr>b_notify := Inl (StoreError ''AutoReconnect'')\<rparr>"

text \<open>The same node when the submission of the second transaction fails.\<close>

definition second_rejected :: "nat \<Rightarrow> batch_obs" where
  "second_rejected i =
     (if i = 2 then (steady i)\<lparr>b_send := Inl (NetworkError ''nonce too low'')\<rparr> else steady i)"


definition exact_single :: pay_obs where
  "exact_single =
     \<lparr>po_now_id = 1750000000000000, po_balance = Inr 20840000000000000,
      po_gas = Inr (Legacy 20000000000 21000)\<rparr>"

text \<open>A store that takes the new scheduled payment under the id 11, and a node and a
  transport that let a confirmed single payment through.\<close>

definition insert_ok :: schedule_obs where
  "insert_ok =
     \<lparr>so_now_parse = 1750000000000000, so_now_calc = 1750000000000001,
      so_now_created = 1750000000000002, so_insert = Inr 11\<rparr>"

definition confirm_ok :: confirm_obs where
  "confirm_ok =
     \<lparr>c_gas = Inr (Legacy 20000000000 21000), c_tx_count = Inr 5, c_send = Inr ''feed'',
      c_edit = Inr (), c_notify = Inr ()\<rparr>"

section \<open>Properties of the schedule calculation\<close>













section \<open>Properties of the due-payment tick\<close>

subsection \<open>Frame lemmas for the tick\<close>

lemma update_one_ids: "(\<And>q. p_id (f q) = p_id q) \<Longrightarrow> map p_id (update_one k f qs) = map p_id qs"
  by (induction qs) auto

lemma find_update_one:
  "(\<And>q. p_id (f q) = p_id q) \<Longrightarrow>
   find (\<lambda>q. p_id q = j) (update_one k f qs)
     = (if j = k then map_option f (find (\<lambda>q. p_id q = k) qs) else find (\<lambda>q. p_id q = j) qs)"
  by (induction qs) auto

lemma find_distinct_member:
  "distinct (map p_id qs) \<Longrightarrow> q \<in> set qs \<Longrightarrow> find (\<lambda>r. p_id r = p_id q) qs = Some q"
  by (induction qs) (auto simp: rev_image_eqI)

lemma find_Some_member: "find P qs = Some q \<Longrightarrow> q \<in> set qs \<and> P q"
  by (induction qs) (auto split: if_splits)

lemma reschedule_id: "reschedule ob p = Some f \<Longrightarrow> p_id (f q) = p_id q"
  by (auto simp: reschedule_def split: if_splits sum.splits pyval.splits)


lemma process_payment_wallets: "wallets (process_payment ob p s) = wallets s"
  by (auto simp: process_payment_def Let_def save_pending_notification_def
      update_scheduled_payment_def split: option.splits prod.splits sum.splits)

lemma submit_scheduled_wallets:
  "wallets s = wallets s' \<Longrightarrow> submit_scheduled s ob p = submit_scheduled s' ob p"
  by (simp add: submit_scheduled_def get_wallet_def)

text \<open>What an iteration does to the collection of payments: nothing, or one update of
  the document with the payment's id.\<close>

lemma process_payment_scheduled:
  "scheduled (process_payment ob p s) = scheduled s \<or>
   (\<exists>f. reschedule ob p = Some f \<and> submit_scheduled s ob p \<noteq> None \<and>
        scheduled (process_payment ob p s) = update_one (p_id p) f (scheduled s))"
  by (auto simp: process_payment_def Let_def save_pending_notification_def
      update_scheduled_payment_def split: option.splits prod.splits sum.splits)

lemma process_payment_ids: "map p_id (scheduled (process_payment ob p s)) = map p_id (scheduled s)"
  using process_payment_scheduled[of ob p s]
  by (auto simp: update_one_ids reschedule_id)

lemma process_payment_other:
  "j \<noteq> p_id p \<Longrightarrow> find_payment j (process_payment ob p s) = find_payment j s"
  using process_payment_scheduled[of ob p s]
  by (auto simp: find_payment_def find_update_one reschedule_id)

lemma process_payment_skipped:
  "submit_scheduled s ob p = None \<Longrightarrow> process_payment ob p s = s"
  by (simp add: process_payment_def)

lemma process_due_wallets: "wallets (process_due obs i ps s) = wallets s"
  by (induction ps arbitrary: i s) (auto simp: process_payment_wallets)

lemma process_due_ids: "map p_id (scheduled (process_due obs i ps s)) = map p_id (scheduled s)"
  by (induction ps arbitrary: i s) (auto simp: process_payment_ids)

lemma process_due_other:
  "j \<notin> p_id ` set ps \<Longrightarrow> find_payment j (process_due obs i ps s) = find_payment j s"
  by (induction ps arbitrary: i s) (auto simp: process_payment_other)

lemma process_due_append:
  "process_due obs i (ps @ qs) s = process_due obs (i + length ps) qs (process_due obs i ps s)"
  by (induction ps arbitrary: i s) auto

text \<open>The iteration of the payment at position \<open>i\<close> of the list, seen from the whole loop.\<close>

lemma process_due_at:
  assumes "i < length ps" and "distinct (map p_id ps)"
  shows "find_payment (p_id (ps ! i)) (process_due obs 0 ps s)
           = find_payment (p_id (ps ! i))
               (process_payment (obs i) (ps ! i) (process_due obs 0 (take i ps) s))"
proof -
  have split: "ps = take i ps @ (ps ! i) # drop (Suc i) ps"
    using assms(1) by (simp add: id_take_nth_drop)
  have d: "distinct (map p_id (take i ps @ (ps ! i) # drop (Suc i) ps))"
    using assms(2) split by simp
  then have notin: "p_id (ps ! i) \<notin> p_id ` set (drop (Suc i) ps)" by auto
  have "process_due obs 0 ps s
          = process_due obs 0 (take i ps @ (ps ! i) # drop (Suc i) ps) s"
    using split by simp
  also have "\<dots> = process_due obs (Suc i) (drop (Suc i) ps)
                    (process_payment (obs i) (ps ! i) (process_due obs 0 (take i ps) s))"
    using assms(1) by (simp add: process_due_append)
  finally show ?thesis using notin by (simp add: process_due_other)
qed

lemma process_due_before:
  assumes "i < length ps" and "distinct (map p_id ps)"
  shows "find_payment (p_id (ps ! i)) (process_due obs 0 (take i ps) s)
           = find_payment (p_id (ps ! i)) s"
proof -
  have split: "ps = take i ps @ (ps ! i) # drop (Suc i) ps"
    using assms(1) by (simp add: id_take_nth_drop)
  have "distinct (map p_id (take i ps @ (ps ! i) # drop (Suc i) ps))"
    using assms(2) split by simp
  then have "p_id (ps ! i) \<notin> p_id ` set (take i ps)" by auto
  then show ?thesis by (rule process_due_other)
qed

lemma due_distinct:
  "distinct (map p_id (scheduled s)) \<Longrightarrow> distinct (map p_id (get_all_due_scheduled_payments now s))"
  by (simp add: get_all_due_scheduled_payments_def distinct_map_filter)

lemma due_member:
  "p \<in> set (get_all_due_scheduled_payments now s)
     \<longleftrightarrow> p \<in> set (scheduled s) \<and> p_next_execution p \<le> now \<and> p_active p"
  by (auto simp: get_all_due_scheduled_payments_def)

lemma dispatch_completes_wallets:
  "wallets s = wallets s' \<Longrightarrow> dispatch_completes s ob p = dispatch_completes s' ob p"
  by (simp add: dispatch_completes_def submit_scheduled_wallets[of s s'])

lemma process_payment_completed:
  assumes "dispatch_completes s ob p"
  shows "\<exists>f. reschedule ob p = Some f \<and>
             scheduled (process_payment ob p s) = update_one (p_id p) f (scheduled s)"
  using assms
  by (auto simp: dispatch_completes_def process_payment_def Let_def save_pending_notification_def
      update_scheduled_payment_def split: option.splits prod.splits sum.splits if_splits)

lemma failing_attempt_submits_nothing:
  assumes "(\<exists>b g. t_balance ob = Inr b \<and> t_gas ob = Inr g \<and>
                  b < p_amount_wei p + estimated_gas_cost_wei g) \<or>
           isl (t_balance ob) \<or> isl (t_gas ob) \<or> isl (t_tx_count ob) \<or> isl (t_send ob)"
  shows "submit_scheduled s ob p = None"
  using assms
  by (auto simp: submit_scheduled_def split: option.splits sum.splits)






lemma tick_at_due_record:
  assumes ids: "distinct (map p_id (scheduled s))"
    and i: "i < length (get_all_due_scheduled_payments now s)"
    and p: "get_all_due_scheduled_payments now s ! i = p"
  shows "\<exists>s1. wallets s1 = wallets s \<and> find_payment (p_id p) s1 = Some p \<and>
              find_payment (p_id p) (process_scheduled_payments now obs s)
                = find_payment (p_id p) (process_payment (obs i) p s1)"
proof -
  let ?due = "get_all_due_scheduled_payments now s"
  let ?s1 = "process_due obs 0 (take i ?due) s"
  have d: "distinct (map p_id ?due)" using ids by (rule due_distinct)
  have "p \<in> set ?due" using i p by auto
  then have "p \<in> set (scheduled s)" by (simp add: due_member)
  then have "find_payment (p_id p) s = Some p"
    using ids by (simp add: find_payment_def find_distinct_member)
  then have "find_payment (p_id p) ?s1 = Some p"
    using process_due_before[OF i d, of obs s] p by simp
  moreover have "wallets ?s1 = wallets s" by (rule process_due_wallets)
  moreover have "find_payment (p_id p) (process_scheduled_payments now obs s)
                = find_payment (p_id p) (process_payment (obs i) p ?s1)"
    using process_due_at[OF i d, of obs s] p by (simp add: process_scheduled_payments_def)
  ultimately show ?thesis by blast
qed

text \<open>
  C7. Let \<open>p\<close> be the due payment at position \<open>i\<close> of a tick's scan. If its dispatch
  attempt fails, because the balance is below amount plus fee or because the balance
  query, the fee quote, the transaction count query or the signing and submission raises,
  then after the whole tick the stored record is \<open>p\<close> itself, every field unchanged (the
  active flag and the next execution among them), and any scan at that time or later
  returns \<open>p\<close> as due.
\<close>

theorem failed_dispatch_leaves_record_due:
  assumes ids: "distinct (map p_id (scheduled s))"
    and i: "i < length (get_all_due_scheduled_payments now s)"
    and p: "get_all_due_scheduled_payments now s ! i = p"
    and fails: "(\<exists>b g. t_balance (obs i) = Inr b \<and> t_gas (obs i) = Inr g \<and>
                       b < p_amount_wei p + estimated_gas_cost_wei g) \<or>
                isl (t_balance (obs i)) \<or> isl (t_gas (obs i)) \<or>
                isl (t_tx_count (obs i)) \<or> isl (t_send (obs i))"
    and later: "now \<le> now'"
  shows "find_payment (p_id p) (process_scheduled_payments now obs s) = Some p \<and>
         p \<in> set (get_all_due_scheduled_payments now' (process_scheduled_payments now obs s))"
proof -
  let ?s' = "process_scheduled_payments now obs s"
  from tick_at_due_record[OF ids i p, of obs] obtain s1
    where s1: "find_payment (p_id p) s1 = Some p"
      and eq: "find_payment (p_id p) ?s' = find_payment (p_id p) (process_payment (obs i) p s1)"
    by blast
  have "process_payment (obs i) p s1 = s1"
    using failing_attempt_submits_nothing[OF fails] by (rule process_payment_skipped)
  with s1 eq have f: "find_payment (p_id p) ?s' = Some p" by simp
  then have m: "p \<in> set (scheduled ?s')"
    by (auto simp: find_payment_def dest: find_Some_member)
  have "p \<in> set (get_all_due_scheduled_payments now s)" using i p by auto
  then have "p_next_execution p \<le> now \<and> p_active p" by (simp add: due_member)
  with m later have "p \<in> set (get_all_due_scheduled_payments now' ?s')"
    by (simp add: due_member)
  with f show ?thesis by simp
qed


lemmas example_defs = world_with_def one_time_payment_def alice_wallet_def empty_user_data_def
  good_tick_def poor_tick_def

theorem failed_dispatch_leaves_record_due_witness:
  "find_payment 7
     (process_scheduled_payments 1750000000000000 (\<lambda>i. poor_tick) (world_with [one_time_payment]))
     = Some one_time_payment \<and>
   one_time_payment \<in> set (get_all_due_scheduled_payments 1750000060000000
     (process_scheduled_payments 1750000000000000 (\<lambda>i. poor_tick) (world_with [one_time_payment])))"
proof -
  let ?s = "world_with [one_time_payment]"
  have ids: "distinct (map p_id (scheduled ?s))" by (simp add: world_with_def)
  have due: "get_all_due_scheduled_payments 1750000000000000 ?s = [one_time_payment]"
    by (simp add: get_all_due_scheduled_payments_def world_with_def one_time_payment_def)
  have i: "0 < length (get_all_due_scheduled_payments 1750000000000000 ?s)"
    and p: "get_all_due_scheduled_payments 1750000000000000 ?s ! 0 = one_time_payment"
    by (simp_all add: due)
  have fails: "(\<exists>b g. t_balance poor_tick = Inr b \<and> t_gas poor_tick = Inr g \<and>
                       b < p_amount_wei one_time_payment + estimated_gas_cost_wei g) \<or>
                isl (t_balance poor_tick) \<or> isl (t_gas poor_tick) \<or>
                isl (t_tx_count poor_tick) \<or> isl (t_send poor_tick)"
    by (simp add: poor_tick_def good_tick_def one_time_payment_def estimated_gas_cost_wei_def)
  have later: "(1750000000000000 :: int) \<le> 1750000060000000" by simp
  from failed_dispatch_leaves_record_due[OF ids i p, of "\<lambda>i. poor_tick", OF fails later]
  show ?thesis by (simp add: one_time_payment_def)
qed


lemma tick_at_completed_record:
  assumes ids: "distinct (map p_id (scheduled s))"
    and i: "i < length (get_all_due_scheduled_payments now s)"
    and p: "get_all_due_scheduled_payments now s ! i = p"
    and ok: "dispatch_completes s (obs i) p"
  shows "\<exists>f. reschedule (obs i) p = Some f \<and>
             find_payment (p_id p) (process_scheduled_payments now obs s) = Some (f p)"
proof -
  from tick_at_due_record[OF ids i p, of obs] obtain s1
    where w: "wallets s1 = wallets s" and s1: "find_payment (p_id p) s1 = Some p"
      and eq: "find_payment (p_id p) (process_scheduled_payments now obs s)
                 = find_payment (p_id p) (process_payment (obs i) p s1)"
    by blast
  have "dispatch_completes s1 (obs i) p" using ok dispatch_completes_wallets[OF w] by simp
  from process_payment_completed[OF this] obtain f
    where f: "reschedule (obs i) p = Some f"
      and u: "scheduled (process_payment (obs i) p s1) = update_one (p_id p) f (scheduled s1)"
    by blast
  from f have "\<And>r. p_id (f r) = p_id r" by (rule reschedule_id)
  with eq u s1 have "find_payment (p_id p) (process_scheduled_payments now obs s) = Some (f p)"
    by (simp add: find_payment_def find_update_one)
  with f show ?thesis by blast
qed




lemmas tick_defs = process_scheduled_payments_def get_all_due_scheduled_payments_def
  process_payment_def submit_scheduled_def get_wallet_def reschedule_def
  estimated_gas_cost_wei_def startswith_def lstrip_at_def build_tx_def
  save_pending_notification_def update_scheduled_payment_def scheduled_notification_def
  add_days_def us_per_day_def min_datetime_def max_datetime_def dispatch_completes_def
  find_payment_def

lemmas more_example_defs = zero_day_payment_def three_day_payment_def



text \<open>A periodic record of 0 days that is active and due by some time is still so
  after a tick, whatever the collaborators answer, as long as the clock reads of the tick
  do not pass the later time \<open>T'\<close>.\<close>

lemma reschedule_zero_day:
  assumes "zero_day_due T q" and "reschedule ob q = Some f" and "t_now ob \<le> T'"
  shows "zero_day_due T' (f q)"
proof -
  from assms(1) have ty: "p_schedule_type q = ''periodic''" "p_schedule_value q = VInt 0"
    "p_active q" by (simp_all add: zero_day_due_def)
  from assms(2) ty obtain t where t: "add_days (t_now ob) 0 = Inr t"
    and f: "f = (\<lambda>r. r\<lparr>p_next_execution := t\<rparr>)"
    by (auto simp: reschedule_def split: sum.splits)
  from t have "t = t_now ob" by (auto simp: add_days_def Let_def split: if_splits)
  with f ty assms(3) show ?thesis by (simp add: zero_day_due_def)
qed

lemma process_payment_zero_day:
  assumes "find_payment k s = Some q" and "zero_day_due T q" and "T \<le> T'" and "t_now ob \<le> T'"
    and own: "p_id p = k \<longrightarrow> p = q"
  shows "\<exists>q'. find_payment k (process_payment ob p s) = Some q' \<and> zero_day_due T' q'"
proof -
  have weaker: "zero_day_due T' q" using assms(2,3) by (auto simp: zero_day_due_def)
  from process_payment_scheduled[of ob p s] consider
      (same) "scheduled (process_payment ob p s) = scheduled s"
    | (upd) f where "reschedule ob p = Some f"
        "scheduled (process_payment ob p s) = update_one (p_id p) f (scheduled s)"
    by blast
  then show ?thesis
  proof cases
    case same
    with assms(1) weaker show ?thesis by (simp add: find_payment_def)
  next
    case upd
    from upd(1) have id: "\<And>r. p_id (f r) = p_id r" by (rule reschedule_id)
    show ?thesis
    proof (cases "k = p_id p")
      case True
      with own have pq: "p = q" by simp
      from reschedule_zero_day[OF assms(2) _ assms(4)] upd(1) pq
      have "zero_day_due T' (f q)" by simp
      with assms(1) upd(2) id True show ?thesis
        by (simp add: find_payment_def find_update_one)
    next
      case False
      with assms(1) upd(2) id weaker show ?thesis
        by (simp add: find_payment_def find_update_one)
    qed
  qed
qed


lemma process_due_zero_day:
  assumes "find_payment k s = Some q" and "zero_day_due T' q"
    and "\<forall>j. t_now (obs j) \<le> T'" and "distinct (map p_id ps)"
    and "\<forall>p \<in> set ps. p_id p = k \<longrightarrow> p = q"
  shows "\<exists>q'. find_payment k (process_due obs i ps s) = Some q' \<and> zero_day_due T' q'"
  using assms
proof (induction ps arbitrary: i s q)
  case Nil
  then show ?case by simp
next
  case (Cons p ps)
  have clock: "t_now (obs i) \<le> T'" using Cons.prems(3) by simp
  have d: "distinct (map p_id ps)" using Cons.prems(4) by simp
  show ?case
  proof (cases "p_id p = k")
    case True
    with Cons.prems(5) have own: "p_id p = k \<longrightarrow> p = q" by simp
    from process_payment_zero_day[OF Cons.prems(1) Cons.prems(2) _ clock own]
    obtain q1 where q1: "find_payment k (process_payment (obs i) p s) = Some q1"
      "zero_day_due T' q1" by auto
    from True Cons.prems(4) have "k \<notin> p_id ` set ps" by simp
    then have "\<forall>r \<in> set ps. p_id r = k \<longrightarrow> r = q1" by blast
    from Cons.IH[OF q1 Cons.prems(3) d this] show ?thesis by simp
  next
    case False
    then have "find_payment k (process_payment (obs i) p s) = Some q"
      using Cons.prems(1) by (simp add: process_payment_other)
    moreover have "\<forall>r \<in> set ps. p_id r = k \<longrightarrow> r = q" using Cons.prems(5) by simp
    ultimately show ?thesis
      using Cons.IH[OF _ Cons.prems(2) Cons.prems(3) d] by simp
  qed
qed

lemma tick_zero_day:
  assumes ids: "distinct (map p_id (scheduled s))"
    and "find_payment k s = Some q" and "zero_day_due T' q" and "\<forall>j. t_now (obs j) \<le> T'"
  shows "\<exists>q'. find_payment k (process_scheduled_payments now obs s) = Some q' \<and>
              zero_day_due T' q'"
proof -
  have d: "distinct (map p_id (get_all_due_scheduled_payments now s))"
    using ids by (rule due_distinct)
  have "\<forall>p \<in> set (get_all_due_scheduled_payments now s). p_id p = k \<longrightarrow> p = q"
  proof (intro ballI impI)
    fix p assume p: "p \<in> set (get_all_due_scheduled_payments now s)" and k: "p_id p = k"
    from p have "p \<in> set (scheduled s)" by (simp add: due_member)
    from find_distinct_member[OF ids this] have "find_payment (p_id p) s = Some p"
      by (simp add: find_payment_def)
    then have "find_payment k s = Some p" by (simp only: k)
    with assms(2) show "p = q" by (simp only: option.inject)
  qed
  from process_due_zero_day[OF assms(2) assms(3) assms(4) d this]
  show ?thesis by (simp add: process_scheduled_payments_def)
qed

lemma run_ticks_zero_day:
  assumes "distinct (map p_id (scheduled s))"
    and "find_payment k s = Some q" and "zero_day_due T' q"
    and "\<forall>tick \<in> set ticks. \<forall>j. t_now (snd tick j) \<le> T'"
  shows "\<exists>q'. find_payment k (run_ticks ticks s) = Some q' \<and> zero_day_due T' q'"
  using assms
proof (induction ticks arbitrary: s q)
  case Nil
  then show ?case by simp
next
  case (Cons tick ticks)
  obtain now obs where tick: "tick = (now, obs)" by (cases tick)
  have clock: "\<forall>j. t_now (obs j) \<le> T'" using Cons.prems(4) tick by simp
  from tick_zero_day[OF Cons.prems(1) Cons.prems(2) Cons.prems(3) clock, of now]
  obtain q1 where q1: "find_payment k (process_scheduled_payments now obs s) = Some q1"
    "zero_day_due T' q1" by auto
  have ids1: "distinct (map p_id (scheduled (process_scheduled_payments now obs s)))"
    using Cons.prems(1) by (simp add: process_scheduled_payments_def process_due_ids)
  have rest: "\<forall>tick \<in> set ticks. \<forall>j. t_now (snd tick j) \<le> T'" using Cons.prems(4) by simp
  from Cons.IH[OF ids1 q1 rest] show ?case by (simp add: tick)
qed

lemma zero_day_found_is_due:
  assumes "find_payment k s = Some q" and "zero_day_due T' q" and "T' \<le> t"
  shows "k \<in> p_id ` set (get_all_due_scheduled_payments t s)"
proof -
  from assms(1) have "q \<in> set (scheduled s)" "p_id q = k"
    by (auto simp: find_payment_def dest: find_Some_member)
  moreover from assms(2,3) have "p_next_execution q \<le> t \<and> p_active q"
    by (auto simp: zero_day_due_def)
  ultimately show ?thesis by (force simp: due_member)
qed

lemma add_zero_days:
  "min_datetime \<le> now \<Longrightarrow> now \<le> max_datetime \<Longrightarrow> add_days now 0 = Inr now"
  by (simp add: add_days_def)

lemma parse_every_0_days:
  assumes "min_datetime \<le> now" and "now \<le> max_datetime"
  shows "parse_schedule_string now ''every 0 days'' = Inr (PPeriodic now 0)"
proof -
  have "strip (lower ''every 0 days'') = ''every 0 days''"
    by (simp add: strip_def lower_def lower_char_def is_space_def)
  moreover have "find_weekday 0 weekdays ''every 0 days'' = None"
    by (simp add: weekdays_def contains_def startswith_def)
  moreover have "re_search match_every_days ''every 0 days'' = Some ''0''"
    by (simp add: match_every_days_def startswith_def is_space_def is_digit_def)
  moreover have "int_of_digits ''0'' = 0"
    by (simp add: int_of_digits_def digit_val_def)
  ultimately show ?thesis
    using assms by (simp add: parse_schedule_string_def add_zero_days)
qed

text \<open>
  C10. At any valid reference time the parser accepts \<^verbatim>\<open>every 0 days\<close> as a periodic
  schedule of 0 days whose next date is the reference time, and the next-execution
  calculation for 0 days returns the reference time. When a due record with that schedule
  is dispatched to the end, its next execution becomes the dispatch time itself and it
  stays active, so every scan at the dispatch time or later returns it as due; and this
  stays so after any further ticks, whatever the collaborators answer in them: a scan no
  earlier than their clock reads returns the record again.
\<close>

theorem every_zero_days_always_due:
  assumes valid: "min_datetime \<le> now0" "now0 \<le> max_datetime"
    and ids: "distinct (map p_id (scheduled s))"
    and i: "i < length (get_all_due_scheduled_payments now s)"
    and p: "get_all_due_scheduled_payments now s ! i = p"
    and zero: "p_schedule_type p = ''periodic''" "p_schedule_value p = VInt 0"
    and ok: "dispatch_completes s (obs i) p"
    and later: "t_now (obs i) \<le> now'"
    and ticks_clock: "\<forall>tick \<in> set ticks. \<forall>j. t_now (snd tick j) \<le> now'"
  shows "parse_schedule_string now0 ''every 0 days'' = Inr (PPeriodic now0 0) \<and>
         calculate_next_execution now0 ''periodic'' (VInt 0) = Inr (Some (VDatetime now0)) \<and>
         find_payment (p_id p) (process_scheduled_payments now obs s)
           = Some (p\<lparr>p_next_execution := t_now (obs i)\<rparr>) \<and>
         p\<lparr>p_next_execution := t_now (obs i)\<rparr>
           \<in> set (get_all_due_scheduled_payments now' (process_scheduled_payments now obs s)) \<and>
         p_id p \<in> p_id ` set (get_all_due_scheduled_payments now'
                                (run_ticks ticks (process_scheduled_payments now obs s)))"
proof -
  let ?s' = "process_scheduled_payments now obs s"
  let ?p' = "p\<lparr>p_next_execution := t_now (obs i)\<rparr>"
  have parse: "parse_schedule_string now0 ''every 0 days'' = Inr (PPeriodic now0 0)"
    using valid by (rule parse_every_0_days)
  have calc: "calculate_next_execution now0 ''periodic'' (VInt 0) = Inr (Some (VDatetime now0))"
    using valid by (simp add: calculate_next_execution_def add_zero_days)
  from tick_at_completed_record[OF ids i p, of obs, OF ok] obtain f
    where f: "reschedule (obs i) p = Some f" and fp: "find_payment (p_id p) ?s' = Some (f p)"
    by blast
  from f zero have "f = (\<lambda>q. q\<lparr>p_next_execution := t_now (obs i)\<rparr>)"
    by (auto simp: reschedule_def add_days_def Let_def split: if_splits)
  with fp have found: "find_payment (p_id p) ?s' = Some ?p'" by simp
  then have m: "?p' \<in> set (scheduled ?s')"
    by (auto simp: find_payment_def dest: find_Some_member)
  have "p \<in> set (get_all_due_scheduled_payments now s)" using i p by auto
  then have act: "p_active p" by (simp add: due_member)
  with m later have due: "?p' \<in> set (get_all_due_scheduled_payments now' ?s')"
    by (simp add: due_member)
  have z: "zero_day_due now' ?p'"
    using zero act later by (simp add: zero_day_due_def)
  have ids': "distinct (map p_id (scheduled ?s'))"
    using ids by (simp add: process_scheduled_payments_def process_due_ids)
  from run_ticks_zero_day[OF ids' found z ticks_clock] obtain q'
    where q': "find_payment (p_id p) (run_ticks ticks ?s') = Some q'" "zero_day_due now' q'"
    by blast
  from zero_day_found_is_due[OF q'] have again:
    "p_id p \<in> p_id ` set (get_all_due_scheduled_payments now' (run_ticks ticks ?s'))"
    by simp
  from parse calc found due again show ?thesis by simp
qed

theorem every_zero_days_always_due_witness:
  "parse_schedule_string 1750000000000000 ''every 0 days''
     = Inr (PPeriodic 1750000000000000 0) \<and>
   calculate_next_execution 1750000000000000 ''periodic'' (VInt 0)
     = Inr (Some (VDatetime 1750000000000000)) \<and>
   find_payment 8
     (process_scheduled_payments 1750000000000000 (\<lambda>i. good_tick) (world_with [zero_day_payment]))
     = Some (zero_day_payment\<lparr>p_next_execution := 1750000001000000\<rparr>) \<and>
   zero_day_payment\<lparr>p_next_execution := 1750000001000000\<rparr>
     \<in> set (get_all_due_scheduled_payments 1750000120000000
         (process_scheduled_payments 1750000000000000 (\<lambda>i. good_tick)
            (world_with [zero_day_payment]))) \<and>
   8 \<in> p_id ` set (get_all_due_scheduled_payments 1750000120000000
         (run_ticks [(1750000060000000, \<lambda>i. poor_tick)]
            (process_scheduled_payments 1750000000000000 (\<lambda>i. good_tick)
               (world_with [zero_day_payment]))))"
proof -
  let ?s = "world_with [zero_day_payment]"
  have v: "min_datetime \<le> 1750000000000000" "1750000000000000 \<le> max_datetime"
    by (simp_all add: min_datetime_def max_datetime_def)
  have ids: "distinct (map p_id (scheduled ?s))" by (simp add: world_with_def)
  have due: "get_all_due_scheduled_payments 1750000000000000 ?s = [zero_day_payment]"
    by (simp add: get_all_due_scheduled_payments_def example_defs more_example_defs)
  have i: "0 < length (get_all_due_scheduled_payments 1750000000000000 ?s)"
    and p: "get_all_due_scheduled_payments 1750000000000000 ?s ! 0 = zero_day_payment"
    by (simp_all add: due)
  have z: "p_schedule_type zero_day_payment = ''periodic''"
    "p_schedule_value zero_day_payment = VInt 0"
    by (simp_all add: zero_day_payment_def)
  have ok: "dispatch_completes ?s good_tick zero_day_payment"
    by (simp add: tick_defs example_defs more_example_defs)
  have later: "t_now good_tick \<le> 1750000120000000" by (simp add: good_tick_def)
  have clock: "\<forall>tick \<in> set [(1750000060000000 :: int, \<lambda>i :: nat. poor_tick)].
                 \<forall>j. t_now (snd tick j) \<le> 1750000120000000"
    by (simp add: poor_tick_def good_tick_def)
  from every_zero_days_always_due[OF v ids i p z, of "\<lambda>i. good_tick", OF ok later clock]
  show ?thesis by (simp add: zero_day_payment_def one_time_payment_def good_tick_def)
qed

section \<open>Properties of the notification outbox\<close>

lemma lower_char_idem: "lower_char (lower_char c) = lower_char c"
  by (auto simp: lower_char_def)

lemma lower_idem: "lower (lower s) = lower s"
  by (simp add: lower_def lower_char_idem)

lemma drain_outbox:
  "outbox (snd (drain obs username i ns s))
     = (outbox s)(lower username :=
          filter (\<lambda>n. n_id n \<notin> set (pulled obs i ns)) (outbox s (lower username)))"
proof (induction ns arbitrary: i s)
  case Nil
  then show ?case by simp
next
  case (Cons n ns)
  have conj: "filter P (filter Q xs) = filter (\<lambda>x. x \<noteq> a \<and> P x) xs"
    if "\<And>x. Q x = (x \<noteq> a)" for P Q a and xs :: "'b list"
    using that by (induction xs) auto
  show ?case
  proof (cases "n_type n = ''received_eth'' \<and> \<not> isl (d_send_message (obs i))
                 \<and> \<not> isl (d_remove (obs i))")
    case True
    then obtain v w where "d_send_message (obs i) = Inr v" "d_remove (obs i) = Inr w"
      by (cases "d_send_message (obs i)"; cases "d_remove (obs i)") auto
    with True show ?thesis
      by (auto simp: Cons.IH remove_pending_notification_def Let_def split_beta fun_eq_iff
          intro: filter_cong)
  next
    case False
    then show ?thesis
      by (cases "d_send_message (obs i)"; cases "d_remove (obs i)")
         (auto simp: Cons.IH Let_def split_beta)
  qed
qed

lemma pulled_member:
  "x \<in> set (pulled obs i ns) \<longleftrightarrow>
     (\<exists>j < length ns. n_id (ns ! j) = x \<and> n_type (ns ! j) = ''received_eth'' \<and>
        \<not> isl (d_send_message (obs (i + j))) \<and> \<not> isl (d_remove (obs (i + j))))"
proof (induction ns arbitrary: i)
  case Nil
  then show ?case by simp
next
  case (Cons n ns)
  have "(\<exists>j < length (n # ns). P j) \<longleftrightarrow> P 0 \<or> (\<exists>j < length ns. P (Suc j))" for P
    by (auto simp: less_Suc_eq_0_disj)
  then show ?case by (auto simp: Cons.IH)
qed

lemma drain_Cons_tried:
  "\<exists>s1. set (fst (drain obs username (Suc i) ns s1))
           \<subseteq> set (fst (drain obs username i (n # ns) s))"
proof (cases "n_type n = ''received_eth''")
  case False
  then show ?thesis by auto
next
  case True
  show ?thesis
  proof (cases "d_send_message (obs i)")
    case (Inl e)
    with True have "set (fst (drain obs username (Suc i) ns s))
           \<subseteq> set (fst (drain obs username i (n # ns) s))"
      by (auto simp: Let_def split: prod.splits)
    then show ?thesis ..
  next
    case (Inr v)
    let ?s1 = "case d_remove (obs i) of Inl e \<Rightarrow> s
               | Inr u' \<Rightarrow> remove_pending_notification s username (n_id n)"
    from Inr True have "set (fst (drain obs username (Suc i) ns ?s1))
           \<subseteq> set (fst (drain obs username i (n # ns) s))"
      by (auto simp: Let_def split: prod.splits)
    then show ?thesis ..
  qed
qed

lemma drain_tried:
  "j < length ns \<Longrightarrow> n_type (ns ! j) = ''received_eth'' \<Longrightarrow>
   (ns ! j, d_send_message (obs (i + j))) \<in> set (fst (drain obs username i ns s))"
proof (induction ns arbitrary: i j s)
  case Nil
  then show ?case by simp
next
  case (Cons n ns)
  show ?case
  proof (cases j)
    case 0
    with Cons.prems show ?thesis
      by (auto simp: Let_def split: sum.splits prod.splits)
  next
    case (Suc k)
    with Cons.prems have k: "k < length ns" "n_type (ns ! k) = ''received_eth''" by simp_all
    from drain_Cons_tried[of obs username i ns n s] obtain s1
      where sub: "set (fst (drain obs username (Suc i) ns s1))
                    \<subseteq> set (fst (drain obs username i (n # ns) s))" ..
    have "(ns ! k, d_send_message (obs (Suc i + k))) \<in> set (fst (drain obs username (Suc i) ns s1))"
      using Cons.IH[OF k] .
    with sub show ?thesis using Suc by auto
  qed
qed

text \<open>
  C8. A user with a non-empty username drains an outbox whose entries have pairwise
  distinct ids. For the entry \<open>n\<close> at position \<open>j\<close>: if its hand-off raises, \<open>n\<close> is still
  in the outbox afterwards; if \<open>n\<close> is no longer in the outbox, then a hand-off of \<open>n\<close> was
  made and went through; and an entry of type \<^verbatim>\<open>received_eth\<close> that is still in the
  outbox is handed off again by the next drain, whatever the transport answers then.
\<close>

theorem outbox_entry_removed_only_after_handoff:
  assumes name: "u_username u = Some name" "name \<noteq> []"
    and ids: "distinct (map n_id (outbox s (lower name)))"
    and run: "check_pending_notifications obs u s = (tried, s')"
    and j: "j < length (outbox s (lower name))"
    and n: "n = outbox s (lower name) ! j"
  shows "(isl (d_send_message (obs j)) \<longrightarrow> n \<in> set (outbox s' (lower name))) \<and>
         (n \<notin> set (outbox s' (lower name)) \<longrightarrow>
            n_type n = ''received_eth'' \<and> d_send_message (obs j) = Inr () \<and>
            (n, Inr ()) \<in> set tried) \<and>
         (n \<in> set (outbox s' (lower name)) \<and> n_type n = ''received_eth'' \<longrightarrow>
            n \<in> fst ` set (fst (check_pending_notifications obs2 u s')))"
proof -
  let ?box = "outbox s (lower name)"
  have run': "drain obs (lower name) 0 ?box s = (tried, s')"
    using run name by (simp add: check_pending_notifications_def get_pending_notifications_def
        lower_idem Let_def)
  have box': "outbox s' (lower name) = filter (\<lambda>m. n_id m \<notin> set (pulled obs 0 ?box)) ?box"
    using drain_outbox[of obs "lower name" 0 ?box s] run' by (simp add: lower_idem)
  have nin: "n \<in> set ?box" using j n by simp
  have pulled_j: "n_id n \<in> set (pulled obs 0 ?box) \<longleftrightarrow>
      n_type n = ''received_eth'' \<and> \<not> isl (d_send_message (obs j)) \<and> \<not> isl (d_remove (obs j))"
  proof
    assume "n_id n \<in> set (pulled obs 0 ?box)"
    then obtain k where k: "k < length ?box" "n_id (?box ! k) = n_id n"
      "n_type (?box ! k) = ''received_eth''" "\<not> isl (d_send_message (obs k))"
      "\<not> isl (d_remove (obs k))"
      by (auto simp: pulled_member)
    have lk: "k < length (map n_id ?box)" and lj: "j < length (map n_id ?box)"
      using k(1) j by simp_all
    from k(1,2) j n have "map n_id ?box ! k = map n_id ?box ! j" by simp
    then have "k = j" using nth_eq_iff_index_eq[OF ids lk lj] by (simp only:)
    with k n show "n_type n = ''received_eth'' \<and> \<not> isl (d_send_message (obs j)) \<and>
        \<not> isl (d_remove (obs j))" by simp
  next
    assume "n_type n = ''received_eth'' \<and> \<not> isl (d_send_message (obs j)) \<and>
        \<not> isl (d_remove (obs j))"
    with j n show "n_id n \<in> set (pulled obs 0 ?box)"
      by (auto simp: pulled_member)
  qed
  have a: "isl (d_send_message (obs j)) \<longrightarrow> n \<in> set (outbox s' (lower name))"
    using box' nin pulled_j by simp
  have b: "n \<notin> set (outbox s' (lower name)) \<longrightarrow>
            n_type n = ''received_eth'' \<and> d_send_message (obs j) = Inr () \<and>
            (n, Inr ()) \<in> set tried"
  proof
    assume "n \<notin> set (outbox s' (lower name))"
    with box' nin pulled_j have ty: "n_type n = ''received_eth''"
      and ok: "\<not> isl (d_send_message (obs j))" by auto
    from ok have sent: "d_send_message (obs j) = Inr ()" by (cases "d_send_message (obs j)") auto
    from drain_tried[OF j, of obs 0 "lower name" s] ty n run' sent
    have "(n, Inr ()) \<in> set tried" by simp
    with ty sent show "n_type n = ''received_eth'' \<and> d_send_message (obs j) = Inr () \<and>
            (n, Inr ()) \<in> set tried" by simp
  qed
  have c: "n \<in> set (outbox s' (lower name)) \<and> n_type n = ''received_eth'' \<longrightarrow>
            n \<in> fst ` set (fst (check_pending_notifications obs2 u s'))"
  proof
    assume h: "n \<in> set (outbox s' (lower name)) \<and> n_type n = ''received_eth''"
    then obtain k where k: "k < length (outbox s' (lower name))" "outbox s' (lower name) ! k = n"
      by (auto simp: in_set_conv_nth)
    from drain_tried[OF k(1), of obs2 0 "lower name" s'] k(2) h
    have "(n, d_send_message (obs2 k)) \<in> set (fst (drain obs2 (lower name) 0 (outbox s' (lower name)) s'))"
      by simp
    then have "n \<in> fst ` set (fst (drain obs2 (lower name) 0 (outbox s' (lower name)) s'))"
      by force
    then show "n \<in> fst ` set (fst (check_pending_notifications obs2 u s'))"
      using name by (simp add: check_pending_notifications_def get_pending_notifications_def
        lower_idem Let_def)
  qed
  from a b c show ?thesis by blast
qed

lemmas outbox_example_defs = bob_def note_one_def note_two_def bob_world_def world_with_def
  flaky_transport_def check_pending_notifications_def get_pending_notifications_def
  remove_pending_notification_def lower_def lower_char_def

theorem outbox_entry_removed_only_after_handoff_witness:
  "note_one \<in> set (outbox (snd (check_pending_notifications flaky_transport bob bob_world)) ''bob'') \<and>
   note_two \<notin> set (outbox (snd (check_pending_notifications flaky_transport bob bob_world)) ''bob'') \<and>
   (note_two, Inr ()) \<in> set (fst (check_pending_notifications flaky_transport bob bob_world)) \<and>
   note_one \<in> fst ` set (fst (check_pending_notifications (\<lambda>i. flaky_transport 1) bob
       (snd (check_pending_notifications flaky_transport bob bob_world))))"
proof -
  let ?r = "check_pending_notifications flaky_transport bob bob_world"
  have lb: "lower ''Bob'' = ''bob''" by (simp add: lower_def lower_char_def)
  have name: "u_username bob = Some ''Bob''" "''Bob'' \<noteq> []" by (simp_all add: bob_def)
  have box: "outbox bob_world (lower ''Bob'') = [note_one, note_two]"
    by (simp add: lb bob_world_def)
  have ids: "distinct (map n_id (outbox bob_world (lower ''Bob'')))"
    by (simp add: box note_one_def note_two_def)
  have run: "?r = (fst ?r, snd ?r)" by simp
  have j0: "0 < length (outbox bob_world (lower ''Bob''))"
    and j1: "1 < length (outbox bob_world (lower ''Bob''))" by (simp_all add: box)
  have n0: "note_one = outbox bob_world (lower ''Bob'') ! 0"
    and n1: "note_two = outbox bob_world (lower ''Bob'') ! 1" by (simp_all add: box)
  have fail0: "isl (d_send_message (flaky_transport 0))" by (simp add: flaky_transport_def)
  have ty: "n_type note_one = ''received_eth''" by (simp add: note_one_def)
  have gone: "note_two \<notin> set (outbox (snd ?r) ''bob'')"
    by (simp add: outbox_example_defs Let_def)
  from outbox_entry_removed_only_after_handoff[OF name ids run j0 n0,
      of "\<lambda>i. flaky_transport 1"] fail0 ty
  have a: "note_one \<in> set (outbox (snd ?r) ''bob'')"
    and c: "note_one \<in> fst ` set (fst (check_pending_notifications (\<lambda>i. flaky_transport 1) bob
               (snd ?r)))"
    by (simp_all add: lb)
  from outbox_entry_removed_only_after_handoff[OF name ids run j1 n1,
      of "\<lambda>i. flaky_transport 1"] gone
  have b: "(note_two, Inr ()) \<in> set (fst ?r)" by (simp add: lb)
  from a b c gone show ?thesis by simp
qed

section \<open>Properties of the batch dispatcher\<close>

lemmas handler_defs = batch_payment_def batch_payment_multi_def batch_preflight_def
  start_resolving_def process_batch_transaction_def batch_step_def batch_notification_def
  get_wallet_def get_wallet_by_username_def get_user_id_by_username_def
  save_pending_notification_def build_tx_def estimated_gas_cost_wei_def finish_def escape_def
  username_or_unknown_def is_success_def startswith_def lstrip_at_def strip_def is_space_def
  lower_def lower_char_def Let_def

lemmas run_defs = alice_def carol_wallet_def town_def example_env_def rich_def steady_def
  mined_between_def store_down_def second_rejected_def world_with_def alice_wallet_def
  empty_user_data_def







text \<open>
  C5 (the program departs from the specification). A batch with the one recipient \<^verbatim>\<open>@carol\<close>: the
  transaction is accepted and the write of her notification raises. The iteration has
  already appended its success entry and the \<^verbatim>\<open>except\<close> appends a failed entry for
  the same recipient, so one recipient gets two outcomes and the summary reads
  2 payments, 1 successful, 1 failed, with one transaction on the chain.
\<close>

theorem outbox_failure_reported_twice:
  "replies (process_batch_transaction store_down alice ''confirm_batch_1750000000''
     (after (batch_payment example_env rich alice [''@carol''] ''0.01'' 10000000000000000 town)))
     = [BatchResults 2 1 1
          [Success ''@carol'' ''0.01'' ''feed'' False ''0xCA401'',
           Failed ''@carol'' ''0.01'' (StoreError ''AutoReconnect'')]] \<and>
   length (chain (after (process_batch_transaction store_down alice ''confirm_batch_1750000000''
     (after (batch_payment example_env rich alice [''@carol''] ''0.01'' 10000000000000000
               town))))) = 1"
  by (simp add: handler_defs run_defs)

text \<open>
  C1 (the program departs from the specification). \<^verbatim>\<open>/batchpaymulti @bob:0.01\<close> for a Bob without a
  wallet, confirmed, with every collaborator answering: the funds go to the address of
  the fresh key, Bob's notification says a wallet was created but carries neither address
  nor key, no wallet is stored, and the parked batch is cleared. The key is nowhere in the
  state.
\<close>

theorem multi_batch_discards_fresh_key:
  "chain (after (process_batch_transaction steady alice ''confirm_batch_multi_1750000000''
     (after (batch_payment_multi example_env rich alice
               [Pair ''@bob'' ''0.01'' 10000000000000000] town))))
     = [\<lparr>tx_nonce = 5, tx_to = e_address_of example_env (e_keygen example_env 0),
         tx_value = 10000000000000000, tx_gas = Legacy 20000000000 21000, tx_chain_id = 1\<rparr>] \<and>
   outbox (after (process_batch_transaction steady alice ''confirm_batch_multi_1750000000''
     (after (batch_payment_multi example_env rich alice
               [Pair ''@bob'' ''0.01'' 10000000000000000] town)))) ''bob''
     = [\<lparr>n_id = 1750000002000001, n_type = ''received_eth'', n_amount = ''0.01'',
         n_sender_username = ''alice'', n_tx_hash = Some ''feed'', n_new_wallet = True,
         n_wallet_address = None, n_private_key = None\<rparr>] \<and>
   wallets (after (process_batch_transaction steady alice ''confirm_batch_multi_1750000000''
     (after (batch_payment_multi example_env rich alice
               [Pair ''@bob'' ''0.01'' 10000000000000000] town))))
     = [alice_wallet, carol_wallet] \<and>
   user_data (after (process_batch_transaction steady alice ''confirm_batch_multi_1750000000''
     (after (batch_payment_multi example_env rich alice
               [Pair ''@bob'' ''0.01'' 10000000000000000] town))))
     = empty_user_data \<and>
   scheduled (after (process_batch_transaction steady alice ''confirm_batch_multi_1750000000''
     (after (batch_payment_multi example_env rich alice
               [Pair ''@bob'' ''0.01'' 10000000000000000] town))))
     = []"
  by (simp add: handler_defs run_defs)

section \<open>Properties of the balance pre-flight\<close>








section \<open>Where the key of a fresh wallet goes\<close>

text \<open>A scheduled payment to a recipient without a wallet keeps the fresh key in the
  record.\<close>

lemma schedule_keeps_fresh_key:
  "map (\<lambda>p. (p_recipient_address p, p_is_new_wallet p, p_private_key p))
     (scheduled (after (schedule_payment example_env insert_ok alice ''@bob'' ''0.01''
                          10000000000000000 ''every monday'' town)))
     = [(''0xADDRESS-OF-FRESH-KEY'', True, Some ''0xFRESH-KEY'')]"
proof -
  have p: "parse_schedule_string 1750000000000000 ''every monday''
             = Inr (PWeekly ''0 12 * * 1'')"
    by code_simp
  have c: "calculate_next_execution 1750000000000001 ''weekly'' (VStr ''0 12 * * 1'')
             = Inr (Some (VDatetime 1750075200000000))"
    by code_simp
  show ?thesis
    by (simp add: schedule_payment_def p schedule_of_parsed_def c schedule_save_def
        save_scheduled_payment_def handler_defs run_defs insert_ok_def)
qed

text \<open>A single payment to a recipient without a wallet puts the fresh key in the
  notification that the confirmation writes to the outbox.\<close>

lemma pay_keeps_fresh_key:
  "map (\<lambda>n. (n_new_wallet n, n_wallet_address n, n_private_key n))
     (outbox (after (confirm_payment confirm_ok
        (after (pay example_env exact_single alice ''@bob'' ''0.01'' 10000000000000000 town))))
        ''bob'')
     = [(True, Some ''0xADDRESS-OF-FRESH-KEY'', Some ''0xFRESH-KEY'')]"
  by (simp add: pay_def pay_preflight_def confirm_payment_def clear_payment_def ensure_0x_def
      exact_single_def confirm_ok_def handler_defs run_defs)

text \<open>So does the same-amount batch.\<close>

lemma batch_keeps_fresh_key:
  "map (\<lambda>n. (n_new_wallet n, n_wallet_address n, n_private_key n))
     (outbox (after (process_batch_transaction steady alice ''confirm_batch_1750000000''
        (after (batch_payment example_env rich alice [''@bob''] ''0.01'' 10000000000000000 town))))
        ''bob'')
     = [(True, Some ''0xADDRESS-OF-FRESH-KEY'', Some ''0xFRESH-KEY'')]"
  by (simp add: handler_defs run_defs)

text \<open>The multi-amount batch never does, whatever its input: no entry it parks carries a
  key, and a notification built from an entry without a key carries none.\<close>

lemma multi_recipients_no_key_step:
  "list_all (\<lambda>r. r_private_key r = None) (rv_recipients (multi_recipients e u i ps acc))
     = list_all (\<lambda>r. r_private_key r = None) (rv_recipients acc)"
proof (induction ps arbitrary: i acc)
  case Nil
  then show ?case by simp
next
  case (Cons p ps)
  show ?case
    by (cases p) (auto simp: Let_def Cons.IH split: option.splits)
qed

lemma multi_recipients_no_key:
  "list_all (\<lambda>r. r_private_key r = None)
     (rv_recipients (multi_recipients e u 0 ps (start_resolving s)))"
  by (simp add: multi_recipients_no_key_step start_resolving_def)

lemma batch_notification_no_key:
  "r_private_key r = None \<Longrightarrow> n_private_key (batch_notification ob name r h) = None"
  by (simp add: batch_notification_def)

section \<open>Outcomes of a batch when the outbox takes every write\<close>

lemma batch_step_one_result:
  "\<not> isl (b_notify ob) \<Longrightarrow>
   length (fst (batch_step ob name i r (res, s))) = Suc (length res)"
  by (cases "b_tx_count ob"; cases "b_gas ob"; cases "b_send ob"; cases "b_notify ob")
     (auto simp: batch_step_def Let_def)

lemma batch_loop_one_result_each:
  "\<forall>j < length rs. \<not> isl (b_notify (obs (i + j))) \<Longrightarrow>
   length (fst (batch_loop obs name i rs (res, s))) = length res + length rs"
proof (induction rs arbitrary: i res s)
  case Nil
  then show ?case by simp
next
  case (Cons r rs)
  from Cons.prems have here: "\<not> isl (b_notify (obs i))" by force
  have rest: "\<forall>j < length rs. \<not> isl (b_notify (obs (Suc i + j)))"
    using Cons.prems by force
  obtain res1 s1 where step: "batch_step (obs i) name i r (res, s) = (res1, s1)"
    by (cases "batch_step (obs i) name i r (res, s)")
  from batch_step_one_result[OF here, of name i r res s] step
  have "length res1 = Suc (length res)" by simp
  with Cons.IH[OF rest, of res1 s1] step show ?case by simp
qed

text \<open>The scenario of the specification: three recipients, the second submission is
  refused, the other two go out.\<close>

lemma three_recipients_second_fails:
  "replies (process_batch_transaction second_rejected alice ''confirm_batch_1750000000''
     (after (batch_payment example_env rich alice [''@carol'', ''0xD0'', ''@bob''] ''0.01''
               10000000000000000 town)))
     = [BatchResults 3 2 1
          [Success ''@carol'' ''0.01'' ''feed'' False ''0xCA401'',
           Failed ''0xD0'' ''0.01'' (NetworkError ''nonce too low''),
           Success ''@bob'' ''0.01'' ''feed'' True ''0xADDRESS-OF-FRESH-KEY'']]"
  by (simp add: handler_defs run_defs)

end
